theory Spec2Isabelle
  imports Complex_Main "HOL-Library.Word"
begin

unbundle bit_operations_syntax

section \<open>Strings\<close>

text \<open>
  JavaScript strings are modelled as \<^typ>\<open>string\<close>: a character is one code unit below
  256, which covers the ASCII service names, statuses and check outputs the program
  handles.
\<close>

text \<open>\<^verbatim>\<open>s.includes(sub)\<close>: \<open>sub\<close> occurs in \<open>s\<close> as a contiguous block.\<close>

fun str_includes :: "string \<Rightarrow> string \<Rightarrow> bool" where
  "str_includes [] sub = (sub = [])"
| "str_includes (c # cs) sub = (take (length sub) (c # cs) = sub \<or> str_includes cs sub)"

text \<open>\<^verbatim>\<open>s.split(sep)\<close> for a one-character separator; the empty string splits to \<open>['']\<close>.\<close>

fun split_on :: "char \<Rightarrow> string \<Rightarrow> string list" where
  "split_on sep [] = [[]]"
| "split_on sep (c # cs) =
     (if c = sep then [] # split_on sep cs
      else (case split_on sep cs of
              [] \<Rightarrow> [[c]]
            | w # ws \<Rightarrow> (c # w) # ws))"

text \<open>The white space and line terminators of \<^verbatim>\<open>trim()\<close> among the code units below 256.\<close>

definition isWhiteSpace :: "char \<Rightarrow> bool" where
  "isWhiteSpace c = (of_char c \<in> {9, 10, 11, 12, 13, 32, 160 :: nat})"

definition trim :: "string \<Rightarrow> string" where
  "trim s = rev (dropWhile isWhiteSpace (rev (dropWhile isWhiteSpace s)))"

text \<open>\<^verbatim>\<open>xs.join(sep)\<close>.\<close>

fun join :: "string \<Rightarrow> string list \<Rightarrow> string" where
  "join sep [] = []"
| "join sep [x] = x"
| "join sep (x # y # ys) = x @ sep @ join sep (y # ys)"

text \<open>
  \<^verbatim>\<open>[...new Set(xs)]\<close>: the elements in the order of their first occurrence.
\<close>

definition setInsert :: "'a \<Rightarrow> 'a list \<Rightarrow> 'a list" where
  "setInsert x acc = (if x \<in> set acc then acc else acc @ [x])"

definition uniq :: "'a list \<Rightarrow> 'a list" where
  "uniq xs = fold setInsert xs []"

text \<open>Decimal text of a non-negative integer, as template literals print it.\<close>

definition digitChar :: "nat \<Rightarrow> char" where
  "digitChar d = char_of (48 + d)"

fun string_of_nat :: "nat \<Rightarrow> string" where
  "string_of_nat n =
     (if n < 10 then [digitChar n] else string_of_nat (n div 10) @ [digitChar (n mod 10)])"

definition string_of_int :: "int \<Rightarrow> string" where
  "string_of_int i = (if i < 0 then CHR ''-'' # string_of_nat (nat (- i)) else string_of_nat (nat i))"

text \<open>
  A JavaScript \<^verbatim>\<open>Map\<close> with string keys, as the list of its entries in insertion
  order. \<open>mapPut\<close> is \<^verbatim>\<open>m.set(k, v)\<close>; \<open>mapAdd\<close> is
  \<^verbatim>\<open>m.set(k, (m.get(k) || 0) + n)\<close>.
\<close>

fun mapPut :: "string \<Rightarrow> 'v \<Rightarrow> (string \<times> 'v) list \<Rightarrow> (string \<times> 'v) list" where
  "mapPut k v [] = [(k, v)]"
| "mapPut k v ((k', v') # rest) =
     (if k' = k then (k', v) # rest else (k', v') # mapPut k v rest)"

fun mapAdd :: "string \<Rightarrow> nat \<Rightarrow> (string \<times> nat) list \<Rightarrow> (string \<times> nat) list" where
  "mapAdd k n [] = [(k, n)]"
| "mapAdd k n ((k', c) # rest) =
     (if k' = k then (k', c + n) # rest else (k', c) # mapAdd k n rest)"

text \<open>\<^verbatim>\<open>s.toLowerCase()\<close> on code units below 256.\<close>

definition lowerChar :: "char \<Rightarrow> char" where
  "lowerChar c =
     (let n = (of_char c :: nat) in
      if (65 \<le> n \<and> n \<le> 90) \<or> (192 \<le> n \<and> n \<le> 222 \<and> n \<noteq> 215)
      then char_of (n + 32) else c)"

definition toLowerCase :: "string \<Rightarrow> string" where
  "toLowerCase s = map lowerChar s"

text \<open>
  \<^verbatim>\<open>x.toFixed(1)\<close> for a number below \<open>10 ^ 21\<close>: the nearest multiple of one tenth,
  the larger one on a tie.
\<close>

definition toFixed1 :: "real \<Rightarrow> string" where
  "toFixed1 x =
     (let n = nat \<lfloor>\<bar>x\<bar> * 10 + 1 / 2\<rfloor> in
      (if x < 0 then ''-'' else []) @ string_of_nat (n div 10) @ ''.'' @ [digitChar (n mod 10)])"

section \<open>Data model (consul-client.ts)\<close>

datatype HealthStatus = Passing | Warning | Critical | Unknown

record HealthCheck =
  check_id :: string
  check_name :: string
  check_status :: HealthStatus
  check_output :: string
  check_notes :: "string option"
  serviceId :: "string option"
  serviceName :: "string option"

record ServiceHealth =
  health_status :: HealthStatus
  checks :: "HealthCheck list"

record ConsulService =
  service_id :: string
  name :: string
  address :: string
  port :: string
  node :: string
  tags :: "string list"
  meta :: "(string \<times> string) list"
  health :: ServiceHealth

datatype ConnStatus = Healthy | ConnWarning | Degraded | Failing | Blocked | Allowed | Inferred

record ServiceConnection =
  source :: string
  destination :: string
  status :: ConnStatus
  protocol :: string
  usesServiceMesh :: bool
  intentionAction :: "string option"
  latency :: "int option"
  errorRate :: "real option"
  requestVolume :: "int option"
  errorMessage :: "string option"

section \<open>The registry gateway\<close>

text \<open>
  The answers of the Consul client library, read as one snapshot. A call can throw
  (\<open>Fails\<close>), answer with something that is not an object or array (\<open>Malformed\<close>), or
  answer with the records (\<open>Reply\<close>).
\<close>

datatype 'a reply = Fails | Malformed | Reply 'a

record AgentCheck =
  Name :: string
  Status :: HealthStatus
  Output :: string
  Notes :: "string option"
  CheckServiceID :: string
  CheckServiceName :: string

record CatalogNode =
  ServiceID :: string
  ServiceName :: string
  ServiceAddress :: string
  Address :: string
  ServicePort :: nat
  Node :: string
  ServiceTags :: "string list option"
  ServiceMeta :: "(string \<times> string) list option"

record Intention =
  SourceName :: string
  DestinationName :: string
  Action :: string

record Registry =
  catalogServices :: "string list reply"
  catalogNodes :: "string \<Rightarrow> CatalogNode list reply"
  agentChecks :: "(string \<times> AgentCheck) list reply"
  connectIntentions :: "Intention list reply"

section \<open>ConsulClient: services and health\<close>

text \<open>One round of the loop of \<open>getServiceHealth\<close> over the agent's checks.\<close>

definition healthStep :: "string \<Rightarrow> string \<times> AgentCheck \<Rightarrow> ServiceHealth \<Rightarrow> ServiceHealth" where
  "healthStep sid entry acc =
     (let checkId = fst entry; check = snd entry in
      if CheckServiceID check = sid then
        \<lparr> health_status =
            (if Status check = Critical then Critical
             else if Status check = Warning \<and> health_status acc \<noteq> Critical then Warning
             else health_status acc),
          checks = checks acc @
            [\<lparr> check_id = checkId, check_name = Name check, check_status = Status check,
               check_output = Output check, check_notes = Notes check,
               serviceId = None, serviceName = None \<rparr>] \<rparr>
      else acc)"

definition getServiceHealth :: "Registry \<Rightarrow> string \<Rightarrow> ServiceHealth" where
  "getServiceHealth reg sid =
     (case agentChecks reg of
        Reply cs \<Rightarrow> fold (healthStep sid) cs \<lparr> health_status = Passing, checks = [] \<rparr>
      | Malformed \<Rightarrow> \<lparr> health_status = Unknown, checks = [] \<rparr>
      | Fails \<Rightarrow> \<lparr> health_status = Unknown, checks = [] \<rparr>)"

definition toService :: "Registry \<Rightarrow> CatalogNode \<Rightarrow> ConsulService" where
  "toService reg service =
     (let h = getServiceHealth reg (ServiceID service) in
      \<lparr> service_id = ServiceID service,
        name = ServiceName service,
        address = (if ServiceAddress service \<noteq> [] then ServiceAddress service else Address service),
        port = string_of_nat (ServicePort service),
        node = Node service,
        tags = (case ServiceTags service of Some ts \<Rightarrow> ts | None \<Rightarrow> []),
        meta = (case ServiceMeta service of Some m \<Rightarrow> m | None \<Rightarrow> []),
        health = \<lparr> health_status = health_status h, checks = checks h \<rparr> \<rparr>)"

text \<open>
  The loop of \<open>getServices\<close> over the catalog's service names; \<open>None\<close> is an exception
  thrown by a node query, which the enclosing \<^verbatim>\<open>catch\<close> turns into the empty list.
\<close>

fun serviceLoop :: "Registry \<Rightarrow> ConsulService list \<Rightarrow> string list \<Rightarrow> ConsulService list option" where
  "serviceLoop reg services [] = Some services"
| "serviceLoop reg services (key # rest) =
     (if key = ''consul'' then serviceLoop reg services rest
      else (case catalogNodes reg key of
              Fails \<Rightarrow> None
            | Malformed \<Rightarrow> serviceLoop reg services rest
            | Reply serviceDetails \<Rightarrow>
                serviceLoop reg (services @ map (toService reg) serviceDetails) rest))"

definition getServices :: "Registry \<Rightarrow> ConsulService list" where
  "getServices reg =
     (case catalogServices reg of
        Reply serviceNames \<Rightarrow>
          (case serviceLoop reg [] serviceNames of Some services \<Rightarrow> services | None \<Rightarrow> [])
      | Malformed \<Rightarrow> []
      | Fails \<Rightarrow> [])"

definition getAllHealthChecks :: "Registry \<Rightarrow> HealthCheck list" where
  "getAllHealthChecks reg =
     (case agentChecks reg of
        Reply cs \<Rightarrow>
          map (\<lambda>entry.
                 \<lparr> check_id = fst entry, check_name = Name (snd entry),
                   check_status = Status (snd entry), check_output = Output (snd entry),
                   check_notes = Notes (snd entry),
                   serviceId = Some (CheckServiceID (snd entry)),
                   serviceName = Some (CheckServiceName (snd entry)) \<rparr>) cs
      | Malformed \<Rightarrow> []
      | Fails \<Rightarrow> [])"

definition getFailingHealthChecks :: "Registry \<Rightarrow> HealthCheck list" where
  "getFailingHealthChecks reg =
     filter (\<lambda>check. check_status check = Warning \<or> check_status check = Critical)
       (getAllHealthChecks reg)"

section \<open>ConsulClient: pseudo-metrics\<close>

text \<open>
  \<open>hashString\<close>: \<^verbatim>\<open>hash = ((hash << 5) - hash) + char; hash = hash & hash\<close> keeps \<open>hash\<close>
  a 32-bit two's complement integer, so the loop is arithmetic on \<^typ>\<open>32 word\<close>;
  \<^verbatim>\<open>Math.abs\<close> is taken on the signed value and leaves the number range of 32 bits
  at \<open>- 2 ^ 31\<close> only.
\<close>

fun hashLoop :: "32 word \<Rightarrow> string \<Rightarrow> 32 word" where
  "hashLoop hash [] = hash"
| "hashLoop hash (c # cs) = hashLoop ((push_bit 5 hash - hash) + of_nat (of_char c)) cs"

definition hashString :: "string \<Rightarrow> nat" where
  "hashString str = nat \<bar>sint (hashLoop 0 str)\<bar>"

text \<open>
  The double-precision operations whose results depend on the JavaScript engine and on
  rounding are a parameter of the model: \<^verbatim>\<open>Math.sin\<close> and the multiplication. The
  values of doubles are real numbers; \<^verbatim>\<open>Math.floor\<close> and the comparisons are exact on
  them, and so is the subtraction \<^verbatim>\<open>x - Math.floor(x)\<close> for \<open>x\<close> not below 0; it is
  taken as exact throughout.
\<close>

record JsMath =
  sin_d :: "real \<Rightarrow> real"
  mul_d :: "real \<Rightarrow> real \<Rightarrow> real"

text \<open>
  A decimal literal of the source that is no double itself denotes the nearest double:
  these are the values of \<^verbatim>\<open>0.05\<close>, \<^verbatim>\<open>0.1\<close>, \<^verbatim>\<open>0.8\<close> and \<^verbatim>\<open>0.9\<close>.
\<close>

definition dbl_0_05 :: real where
  "dbl_0_05 = 3602879701896397 / 2 ^ 56"

definition dbl_0_1 :: real where
  "dbl_0_1 = 3602879701896397 / 2 ^ 55"

definition dbl_0_8 :: real where
  "dbl_0_8 = 3602879701896397 / 2 ^ 52"

definition dbl_0_9 :: real where
  "dbl_0_9 = 8106479329266893 / 2 ^ 53"

text \<open>The engine with exact real arithmetic.\<close>

definition exactMath :: JsMath where
  "exactMath = \<lparr> sin_d = sin, mul_d = (\<lambda>a b. a * b) \<rparr>"

text \<open>
  One call of the closure returned by \<open>seededRandom\<close>: the number drawn and the seed
  the closure holds afterwards.
\<close>

definition seededRandom :: "JsMath \<Rightarrow> nat \<Rightarrow> real \<times> nat" where
  "seededRandom fp seed =
     (let x = mul_d fp (sin_d fp (real seed)) 10000 in (x - of_int \<lfloor>x\<rfloor>, seed + 1))"

definition errors :: "string list" where
  "errors =
     [''Connection timeout'', ''Service unavailable'', ''Internal server error'',
      ''Bad gateway'', ''Too many requests'', ''Connection refused'',
      ''DNS resolution failed'', ''TLS handshake failed'']"

text \<open>An index outside the array reads \<^verbatim>\<open>undefined\<close>: no message.\<close>

definition getRandomErrorMessage :: "JsMath \<Rightarrow> real \<Rightarrow> string option" where
  "getRandomErrorMessage fp rand =
     (let i = \<lfloor>mul_d fp rand (real (length errors))\<rfloor> in
      if 0 \<le> i \<and> nat i < length errors then Some (errors ! nat i) else None)"

definition enhanceConnectionWithMetrics :: "JsMath \<Rightarrow> ServiceConnection \<Rightarrow> ServiceConnection" where
  "enhanceConnectionWithMetrics fp connection =
     (if status connection = Blocked then connection
      else
        let seed = hashString (source connection @ ''-'' @ destination connection);
            (r1, seed1) = seededRandom fp seed;
            (r2, seed2) = seededRandom fp seed1;
            (r3, seed3) = seededRandom fp seed2;
            enhanced = connection
              \<lparr> latency := Some (\<lfloor>mul_d fp r1 450\<rfloor> + 50),
                errorRate := Some (mul_d fp r2 dbl_0_1),
                requestVolume := Some (\<lfloor>mul_d fp r3 990\<rfloor> + 10) \<rparr>
        in
          if mul_d fp r2 dbl_0_1 > dbl_0_05 then
            enhanced \<lparr> status := Degraded,
                       errorMessage := getRandomErrorMessage fp (fst (seededRandom fp seed3)) \<rparr>
          else if mul_d fp r2 dbl_0_1 > 0 then enhanced \<lparr> status := ConnWarning \<rparr>
          else if status connection = Inferred then enhanced \<lparr> status := Healthy \<rparr>
          else enhanced)"

section \<open>ConsulClient: connections\<close>

definition intentionConnection :: "Intention \<Rightarrow> ServiceConnection" where
  "intentionConnection intention =
     \<lparr> source = SourceName intention,
       destination = DestinationName intention,
       status = (if Action intention = ''allow'' then Allowed else Blocked),
       protocol = ''tcp'',
       usesServiceMesh = True,
       intentionAction = Some (Action intention),
       latency = None, errorRate = None, requestVolume = None, errorMessage = None \<rparr>"

text \<open>
  The first tier: a query that throws is caught inside \<open>getServiceConnections\<close> and
  leaves the list empty, as an answer that is not an array does.
\<close>

definition intentionConnections :: "Registry \<Rightarrow> ServiceConnection list" where
  "intentionConnections reg =
     (case connectIntentions reg of
        Reply intentions \<Rightarrow> map intentionConnection intentions
      | Malformed \<Rightarrow> []
      | Fails \<Rightarrow> [])"

text \<open>\<^verbatim>\<open>source.meta?.upstream_services?.split(',') || []\<close>\<close>

definition upstreams :: "ConsulService \<Rightarrow> string list" where
  "upstreams src =
     (case map_of (meta src) ''upstream_services'' of
        Some v \<Rightarrow> split_on (CHR '','') v
      | None \<Rightarrow> [])"

text \<open>\<^verbatim>\<open>source.meta?.protocol || 'http'\<close>\<close>

definition metaProtocol :: "ConsulService \<Rightarrow> string" where
  "metaProtocol src =
     (case map_of (meta src) ''protocol'' of
        Some p \<Rightarrow> (if p \<noteq> [] then p else ''http'')
      | None \<Rightarrow> ''http'')"

definition inferredConnection :: "string \<Rightarrow> ConsulService \<Rightarrow> ConsulService \<Rightarrow> ServiceConnection" where
  "inferredConnection proto src tgt =
     \<lparr> source = name src,
       destination = name tgt,
       status = Inferred,
       protocol = proto,
       usesServiceMesh = False,
       intentionAction = None,
       latency = None, errorRate = None, requestVolume = None, errorMessage = None \<rparr>"

text \<open>The loop over the declared upstream names of one source service.\<close>

definition metadataEdges :: "ConsulService list \<Rightarrow> ConsulService \<Rightarrow> ServiceConnection list" where
  "metadataEdges services src =
     concat (map (\<lambda>upstreamName.
                    map (inferredConnection (metaProtocol src) src)
                      (filter (\<lambda>s. name s = trim upstreamName) services))
                 (upstreams src))"

text \<open>The condition of the naming heuristic, as one disjunction.\<close>

definition namingMatch :: "string \<Rightarrow> string \<Rightarrow> bool" where
  "namingMatch sourceName targetName =
     ((str_includes sourceName ''api'' \<and> str_includes targetName ''service'') \<or>
      (str_includes sourceName ''web'' \<and> str_includes targetName ''api'') \<or>
      (str_includes sourceName ''service'' \<and> str_includes targetName ''db'') \<or>
      (str_includes sourceName ''frontend'' \<and> str_includes targetName ''api'') \<or>
      (str_includes sourceName ''api'' \<and> str_includes targetName ''auth'') \<or>
      (str_includes sourceName ''api'' \<and> str_includes targetName ''payment''))"

text \<open>The loop over the targets of one source service.\<close>

definition namingEdges :: "ConsulService list \<Rightarrow> ConsulService \<Rightarrow> ServiceConnection list" where
  "namingEdges services src =
     map (inferredConnection ''http'' src)
       (filter (\<lambda>tgt. service_id src \<noteq> service_id tgt \<and> namingMatch (name src) (name tgt))
          services)"

definition inferConnections :: "ConsulService list \<Rightarrow> ServiceConnection list" where
  "inferConnections services =
     concat (map (\<lambda>src. metadataEdges services src @ namingEdges services src) services)"

definition getServiceConnections :: "JsMath \<Rightarrow> Registry \<Rightarrow> ServiceConnection list" where
  "getServiceConnections fp reg =
     (let connections = intentionConnections reg;
          connections' = (if length connections = 0
                          then inferConnections (getServices reg) else connections)
      in map (enhanceConnectionWithMetrics fp) connections')"

definition isFailingConnection :: "ServiceConnection \<Rightarrow> bool" where
  "isFailingConnection conn =
     (status conn = Degraded \<or> status conn = Blocked \<or> status conn = Failing)"

definition getFailingConnections :: "JsMath \<Rightarrow> Registry \<Rightarrow> ServiceConnection list" where
  "getFailingConnections fp reg = filter isFailingConnection (getServiceConnections fp reg)"

section \<open>HealthManager (health.ts)\<close>

record HealthSummary =
  total :: nat
  passing :: nat
  warning :: nat
  critical :: nat
  unknown :: nat
  failingChecksByService :: "(string \<times> nat) list"
  overallStatus :: HealthStatus

text \<open>
  \<^verbatim>\<open>failingChecksMap.set(name, (failingChecksMap.get(name) || 0) + 1)\<close> on a map that
  keeps its keys in insertion order.
\<close>

definition countFailing :: "HealthCheck \<Rightarrow> (string \<times> nat) list \<Rightarrow> (string \<times> nat) list" where
  "countFailing check m =
     (case serviceName check of
        Some n \<Rightarrow>
          (if (check_status check = Warning \<or> check_status check = Critical) \<and> n \<noteq> []
           then mapAdd n 1 m else m)
      | None \<Rightarrow> m)"

definition getHealthSummary :: "Registry \<Rightarrow> HealthSummary" where
  "getHealthSummary reg =
     (let allChecks = getAllHealthChecks reg;
          passingCount = length (filter (\<lambda>check. check_status check = Passing) allChecks);
          warningCount = length (filter (\<lambda>check. check_status check = Warning) allChecks);
          criticalCount = length (filter (\<lambda>check. check_status check = Critical) allChecks);
          unknownCount = length (filter (\<lambda>check. check_status check = Unknown) allChecks);
          failingChecksMap = fold countFailing allChecks []
      in \<lparr> total = length allChecks,
           passing = passingCount,
           warning = warningCount,
           critical = criticalCount,
           unknown = unknownCount,
           failingChecksByService = sort_key (\<lambda>entry. - int (snd entry)) failingChecksMap,
           overallStatus =
             (if criticalCount > 0 then Critical
              else if warningCount > 0 then Warning
              else Passing) \<rparr>)"

section \<open>ServiceManager (services.ts)\<close>

record ServiceDetails = ConsulService +
  incoming :: "ServiceConnection list"
  outgoing :: "ServiceConnection list"
  healthStatus :: HealthStatus
  checkCount :: nat
  incomingConnectionCount :: nat
  outgoingConnectionCount :: nat
  hasFailingConnections :: bool
  hasFailingHealthChecks :: bool

definition connFailing :: "ServiceConnection \<Rightarrow> bool" where
  "connFailing c = (status c = Degraded \<or> status c = Failing \<or> status c = Blocked)"

definition checkFailing :: "HealthCheck \<Rightarrow> bool" where
  "checkFailing c = (check_status c = Warning \<or> check_status c = Critical)"

definition enrichServiceDetails :: "ConsulService \<Rightarrow> ServiceConnection list \<Rightarrow> ServiceDetails" where
  "enrichServiceDetails service connections =
     (let incomingConnections = filter (\<lambda>conn. destination conn = name service) connections;
          outgoingConnections = filter (\<lambda>conn. source conn = name service) connections
      in ConsulService.extend service
           (ServiceDetails.fields
              incomingConnections
              outgoingConnections
              (health_status (health service))
              (length (checks (health service)))
              (length incomingConnections)
              (length outgoingConnections)
              (list_ex connFailing incomingConnections \<or> list_ex connFailing outgoingConnections)
              (list_ex checkFailing (checks (health service)))))"

definition getAllServices :: "JsMath \<Rightarrow> Registry \<Rightarrow> ServiceDetails list" where
  "getAllServices fp reg =
     (let services = getServices reg;
          connections = getServiceConnections fp reg
      in map (\<lambda>service. enrichServiceDetails service connections) services)"

text \<open>\<open>None\<close> is the \<^verbatim>\<open>null\<close> returned when no service has the name.\<close>

definition getServiceByName :: "JsMath \<Rightarrow> Registry \<Rightarrow> string \<Rightarrow> ServiceDetails option" where
  "getServiceByName fp reg serviceName' =
     (let services = getServices reg;
          connections = getServiceConnections fp reg
      in case find (\<lambda>s. name s = serviceName') services of
           None \<Rightarrow> None
         | Some service \<Rightarrow> Some (enrichServiceDetails service connections))"

record ServiceMetrics =
  metrics_serviceName :: string
  cpu_usage :: real
  cpu_cores :: int
  memory_used :: int
  memory_total :: int
  network_rxBytes :: int
  network_txBytes :: int
  requestRate :: int
  metrics_errorRate :: real
  responseTime_p50 :: int
  responseTime_p90 :: int
  responseTime_p99 :: int

text \<open>
  The ten draws are made in the order of the object literal, each by the same closure,
  whose seed is threaded through.
\<close>

definition getServiceMetrics :: "JsMath \<Rightarrow> string \<Rightarrow> ServiceMetrics" where
  "getServiceMetrics fp serviceName' =
     (let seed = hashString serviceName';
          (r1, seed1) = seededRandom fp seed;
          (r2, seed2) = seededRandom fp seed1;
          (r3, seed3) = seededRandom fp seed2;
          (r4, seed4) = seededRandom fp seed3;
          (r5, seed5) = seededRandom fp seed4;
          (r6, seed6) = seededRandom fp seed5;
          (r7, seed7) = seededRandom fp seed6;
          (r8, seed8) = seededRandom fp seed7;
          (r9, seed9) = seededRandom fp seed8;
          (r10, seed10) = seededRandom fp seed9
      in \<lparr> metrics_serviceName = serviceName',
           cpu_usage = mul_d fp r1 dbl_0_8,
           cpu_cores = \<lfloor>mul_d fp r2 4\<rfloor> + 1,
           memory_used = \<lfloor>mul_d fp r3 900\<rfloor> + 100,
           memory_total = 1024,
           network_rxBytes = \<lfloor>mul_d fp r4 100000\<rfloor>,
           network_txBytes = \<lfloor>mul_d fp r5 100000\<rfloor>,
           requestRate = \<lfloor>mul_d fp r6 1000\<rfloor>,
           metrics_errorRate = mul_d fp r7 dbl_0_1,
           responseTime_p50 = \<lfloor>mul_d fp r8 100\<rfloor> + 20,
           responseTime_p90 = \<lfloor>mul_d fp r9 200\<rfloor> + 100,
           responseTime_p99 = \<lfloor>mul_d fp r10 500\<rfloor> + 200 \<rparr>)"

section \<open>ServiceAnalyzer (status-analyzer.ts)\<close>

datatype error = Error string

record ServiceAnalysis =
  issues :: "string list"
  recommendations :: "string list"

definition statusText :: "HealthStatus \<Rightarrow> string" where
  "statusText st =
     (case st of Passing \<Rightarrow> ''passing'' | Warning \<Rightarrow> ''warning''
               | Critical \<Rightarrow> ''critical'' | Unknown \<Rightarrow> ''unknown'')"

text \<open>
  The test of the regular expression \<^verbatim>\<open>/HTTP.*[45]\d\d/\<close>: the text \<open>HTTP\<close>, then on
  the same line a digit 4 or 5 followed by two digits.
\<close>

definition isDigit :: "char \<Rightarrow> bool" where
  "isDigit c = (48 \<le> (of_char c :: nat) \<and> (of_char c :: nat) \<le> 57)"

definition isLineTerminator :: "char \<Rightarrow> bool" where
  "isLineTerminator c = (of_char c \<in> {10, 13 :: nat})"

fun statusCodeAhead :: "string \<Rightarrow> bool" where
  "statusCodeAhead [] = False"
| "statusCodeAhead (c # cs) =
     (((c = CHR ''4'' \<or> c = CHR ''5'') \<and> length cs \<ge> 2 \<and> isDigit (cs ! 0) \<and> isDigit (cs ! 1)) \<or>
      (\<not> isLineTerminator c \<and> statusCodeAhead cs))"

fun httpErrorTest :: "string \<Rightarrow> bool" where
  "httpErrorTest [] = False"
| "httpErrorTest (c # cs) =
     ((take 4 (c # cs) = ''HTTP'' \<and> statusCodeAhead (drop 4 (c # cs))) \<or> httpErrorTest cs)"

text \<open>What the analysis of the failing health checks pushes: issues and recommendations.\<close>

definition healthFindings :: "ServiceDetails \<Rightarrow> string list \<times> string list" where
  "healthFindings service =
     (if hasFailingHealthChecks service then
        let failingChecks = filter checkFailing (checks (health service));
            checkOutputs = map (\<lambda>check. toLowerCase (check_output check)) failingChecks
        in (map (\<lambda>check. ''Health check \"'' @ check_name check @ ''\" is '' @
                           statusText (check_status check) @ '': '' @ check_output check)
              failingChecks,
            (if list_ex (\<lambda>out. str_includes out ''timeout'') checkOutputs
             then [''Check for slow response times or overloaded resources''] else []) @
            (if list_ex (\<lambda>out. str_includes out ''connection refused'') checkOutputs
             then [''Verify the service is running and accepting connections''] else []) @
            (if list_ex (\<lambda>out. str_includes out ''disk'' \<or> str_includes out ''storage'') checkOutputs
             then [''Increase available disk space or clean up logs/temporary files''] else []) @
            (if list_ex httpErrorTest checkOutputs
             then [''Investigate HTTP errors in service logs''] else []))
      else ([], []))"

definition incomingFindings :: "ServiceDetails \<Rightarrow> string list \<times> string list" where
  "incomingFindings service =
     (let failingIncoming = filter connFailing (incoming service) in
      if length failingIncoming > 0 then
        ([string_of_nat (length failingIncoming) @ '' incoming connections are experiencing issues''],
         (let sources = uniq (map source failingIncoming) in
          if length sources > 0
          then [''Check connectivity from services: '' @ join '', '' sources] else []))
      else ([], []))"

definition outgoingFindings :: "ServiceDetails \<Rightarrow> string list \<times> string list" where
  "outgoingFindings service =
     (let failingOutgoing = filter connFailing (outgoing service) in
      if length failingOutgoing > 0 then
        ([string_of_nat (length failingOutgoing) @ '' outgoing connections are experiencing issues''],
         (let destinations = uniq (map destination failingOutgoing) in
          if length destinations > 0
          then [''Check connectivity to services: '' @ join '', '' destinations] else []))
      else ([], []))"

definition meshFindings :: "ServiceDetails \<Rightarrow> string list \<times> string list" where
  "meshFindings service =
     (let meshConnections = filter usesServiceMesh (incoming service @ outgoing service);
          blockedConnections = filter (\<lambda>conn. status conn = Blocked) meshConnections
      in if length meshConnections > 0 \<and> length blockedConnections > 0 then
           ([string_of_nat (length blockedConnections) @
               '' connections are blocked by service mesh intentions''],
            [''Review service mesh intentions to ensure they match expected traffic patterns''])
         else ([], []))"

definition metricFindings :: "JsMath \<Rightarrow> ServiceMetrics \<Rightarrow> string list \<times> string list" where
  "metricFindings fp metrics =
     ((if metrics_errorRate metrics > dbl_0_05
       then [''High error rate: '' @ toFixed1 (mul_d fp (metrics_errorRate metrics) 100) @ ''%'']
       else []) @
      (if cpu_usage metrics > dbl_0_8
       then [''High CPU usage: '' @ toFixed1 (mul_d fp (cpu_usage metrics) 100) @ ''%'']
       else []) @
      (if real_of_int (memory_used metrics) / real_of_int (memory_total metrics) > dbl_0_9
       then [''High memory usage: '' @ string_of_int (memory_used metrics) @ ''/'' @
               string_of_int (memory_total metrics) @ '' MB'']
       else []) @
      (if responseTime_p99 metrics > 500
       then [''Slow response times (p99): '' @ string_of_int (responseTime_p99 metrics) @ ''ms'']
       else []),
      (if metrics_errorRate metrics > dbl_0_05
       then [''Investigate application logs for errors''] else []) @
      (if cpu_usage metrics > dbl_0_8
       then [''Consider scaling horizontally or optimizing resource usage''] else []) @
      (if real_of_int (memory_used metrics) / real_of_int (memory_total metrics) > dbl_0_9
       then [''Check for memory leaks or increase memory allocation''] else []) @
      (if responseTime_p99 metrics > 500
       then [''Optimize critical paths or add caching''] else []))"

text \<open>
  \<open>Inl\<close> is the error thrown to the caller, \<open>Inr\<close> the analysis returned.
\<close>

definition analyzeService :: "JsMath \<Rightarrow> Registry \<Rightarrow> string \<Rightarrow> error + ServiceAnalysis" where
  "analyzeService fp reg serviceName' =
     (case getServiceByName fp reg serviceName' of
        None \<Rightarrow> Inl (Error (''Service '' @ serviceName' @ '' not found''))
      | Some service \<Rightarrow>
          let (i1, r1) = healthFindings service;
              (i2, r2) = incomingFindings service;
              (i3, r3) = outgoingFindings service;
              (i4, r4) = meshFindings service;
              (i5, r5) = metricFindings fp (getServiceMetrics fp serviceName');
              issues' = i1 @ i2 @ i3 @ i4 @ i5;
              recommendations' = r1 @ r2 @ r3 @ r4 @ r5
          in Inr (if length issues' = 0
                  then \<lparr> issues = [''No issues detected''],
                         recommendations = uniq (recommendations' @ [''Continue monitoring service health'']) \<rparr>
                  else \<lparr> issues = issues', recommendations = uniq recommendations' \<rparr>))"

record MeshAnalysis =
  mesh_summary :: string
  mesh_issues :: "string list"
  mesh_recommendations :: "string list"

text \<open>
  The separator of a reported pair, between two blanks: the characters of the source
  file, carried as their bytes.
\<close>

definition pairArrow :: string where
  "pairArrow = map char_of [195, 162, 226, 128, 160, 226, 128, 153 :: nat]"

definition pairText :: "ServiceConnection \<Rightarrow> string" where
  "pairText conn = source conn @ '' '' @ pairArrow @ '' '' @ destination conn"

text \<open>
  \<open>serviceConnectivityMap\<close>: every service name is given an empty set, then every
  connection whose source is a key adds its destination to the set of that key.
\<close>

definition addOutgoing :: "ServiceConnection \<Rightarrow> (string \<times> string list) list \<Rightarrow> (string \<times> string list) list" where
  "addOutgoing conn m =
     (case map_of m (source conn) of
        Some out \<Rightarrow> mapPut (source conn) (setInsert (destination conn) out) m
      | None \<Rightarrow> m)"

definition serviceConnectivityMap ::
    "ConsulService list \<Rightarrow> ServiceConnection list \<Rightarrow> (string \<times> string list) list" where
  "serviceConnectivityMap services connections =
     fold addOutgoing connections (fold (\<lambda>service. mapPut (name service) []) services [])"

definition isolatedServices :: "(string \<times> string list) list \<Rightarrow> string list" where
  "isolatedServices m =
     map fst (filter (\<lambda>entry.
                        \<not> (length (snd entry) > 0) \<and>
                        \<not> list_ex (\<lambda>out. fst entry \<in> set out) (map snd m)) m)"

definition connectionCounts :: "(string \<times> string list) list \<Rightarrow> (string \<times> nat) list" where
  "connectionCounts m =
     fold (\<lambda>entry counts.
             fold (\<lambda>target. mapAdd target 1) (snd entry)
               (mapAdd (fst entry) (length (snd entry)) counts)) m []"

definition mostConnected :: "(string \<times> nat) list \<Rightarrow> string list" where
  "mostConnected counts =
     map fst (filter (\<lambda>entry. snd entry > 2)
                (take 3 (sort_key (\<lambda>entry. - int (snd entry)) counts)))"

definition analyzeServiceMesh :: "JsMath \<Rightarrow> Registry \<Rightarrow> MeshAnalysis" where
  "analyzeServiceMesh fp reg =
     (let services = getServices reg;
          connections = getServiceConnections fp reg;
          healthSummary = getHealthSummary reg;
          failingConnections = filter connFailing connections;
          pairs = uniq (map pairText failingConnections);
          connectivity = serviceConnectivityMap services connections;
          isolated = isolatedServices connectivity;
          critical' = mostConnected (connectionCounts connectivity);
          issues' =
            (if critical healthSummary > 0
             then [string_of_nat (critical healthSummary) @ '' services have critical health checks'']
             else []) @
            (if warning healthSummary > 0
             then [string_of_nat (warning healthSummary) @ '' services have warning health checks'']
             else []) @
            (if length failingConnections > 0
             then [string_of_nat (length failingConnections) @ '' connections are experiencing issues''] @
                  (if length pairs > 3
                   then [''Key problematic connections: '' @ join '', '' (take 3 pairs) @ '' and others'']
                   else if length pairs > 0
                   then [''Problematic connections: '' @ join '', '' pairs]
                   else [])
             else []) @
            (if length isolated > 0
             then [string_of_nat (length isolated) @ '' services appear to be isolated: '' @
                     join '', '' isolated]
             else []);
          recommendations' =
            (if length isolated > 0
             then [''Review isolated services to determine if they should be connected to the mesh'']
             else []) @
            (if length critical' > 0
             then [''Critical path services with most connections: '' @ join '', '' critical' @
                     ''. Consider monitoring these closely.'']
             else []);
          summary =
            ''Service mesh has '' @ string_of_nat (length services) @ '' services with '' @
            string_of_nat (length connections) @ '' connections. '' @
            (if critical healthSummary > 0 \<or> warning healthSummary > 0
             then ''There are '' @ string_of_nat (critical healthSummary) @ '' critical and '' @
                  string_of_nat (warning healthSummary) @ '' warning health issues. ''
             else ''All services have passing health checks. '') @
            (if length failingConnections > 0
             then string_of_nat (length failingConnections) @ '' connections are experiencing issues.''
             else ''All connections are healthy.'')
      in if length issues' = 0
         then \<lparr> mesh_summary = summary,
                mesh_issues = [''No issues detected in the service mesh''],
                mesh_recommendations =
                  uniq (recommendations' @ [''Continue monitoring service health and connections'']) \<rparr>
         else \<lparr> mesh_summary = summary,
                mesh_issues = issues',
                mesh_recommendations = uniq recommendations' \<rparr>)"

section \<open>DiagramGenerator (diagram-generator.ts)\<close>

record DiagramOptions =
  includeHealth :: bool
  includeMetrics :: bool

text \<open>The character class \<^verbatim>\<open>[a-zA-Z0-9]\<close>, by the ranges of its code units.\<close>

definition isAlnum :: "char \<Rightarrow> bool" where
  "isAlnum c =
     (let n = (of_char c :: nat) in
      (97 \<le> n \<and> n \<le> 122) \<or> (65 \<le> n \<and> n \<le> 90) \<or> (48 \<le> n \<and> n \<le> 57))"

text \<open>\<^verbatim>\<open>name.replace(/[^a-zA-Z0-9]/g, '_')\<close>\<close>

definition formatId :: "string \<Rightarrow> string" where
  "formatId name' = map (\<lambda>c. if isAlnum c then c else CHR ''_'') name'"

definition getHealthStyle :: "HealthStatus \<Rightarrow> string" where
  "getHealthStyle st =
     (case st of
        Critical \<Rightarrow> '':::critical''
      | Warning \<Rightarrow> '':::warning''
      | Passing \<Rightarrow> '':::healthy''
      | Unknown \<Rightarrow> [])"

definition getConnectionStyle :: "ConnStatus \<Rightarrow> string" where
  "getConnectionStyle st =
     (case st of
        Degraded \<Rightarrow> '':::failingConn''
      | Failing \<Rightarrow> '':::failingConn''
      | ConnWarning \<Rightarrow> '':::warningConn''
      | Blocked \<Rightarrow> '':::failingConn''
      | Healthy \<Rightarrow> []
      | Allowed \<Rightarrow> []
      | Inferred \<Rightarrow> [])"

definition newline :: string where
  "newline = [char_of (10 :: nat)]"

definition nodeLine :: "DiagramOptions \<Rightarrow> ConsulService \<Rightarrow> string" where
  "nodeLine options service =
     (let serviceId' = formatId (name service) in
      if includeHealth options
      then ''    '' @ serviceId' @ ''[\"'' @ name service @ ''\"]'' @
           getHealthStyle (health_status (health service)) @ newline
      else ''    '' @ serviceId' @ ''[\"'' @ name service @ ''\"]'' @ newline)"

definition edgeLine :: "DiagramOptions \<Rightarrow> ServiceConnection \<Rightarrow> string" where
  "edgeLine options connection =
     (let sourceId = formatId (source connection);
          targetId = formatId (destination connection);
          connectionStyle = getConnectionStyle (status connection);
          label = (case latency connection of
                     Some l \<Rightarrow> (if includeMetrics options \<and> l \<noteq> 0
                                then '' |'' @ string_of_int l @ ''ms|'' else [])
                   | None \<Rightarrow> [])
      in ''  '' @ sourceId @ '' -->'' @ label @ '' '' @ targetId @ connectionStyle @ newline)"

definition generateServiceDiagram ::
    "ConsulService list \<Rightarrow> ServiceConnection list \<Rightarrow> DiagramOptions \<Rightarrow> string" where
  "generateServiceDiagram services connections options =
     ''flowchart TD'' @ newline @
     ''  subgraph \"Consul Service Mesh\"'' @ newline @
     concat (map (nodeLine options) services) @
     ''  end'' @ newline @ newline @
     concat (map (edgeLine options) connections) @
     newline @ ''  %% Legend'' @ newline @
     ''  subgraph \"Legend\"'' @ newline @
     ''    healthy[\"Healthy Service\"]:::healthy'' @ newline @
     ''    warning[\"Warning Service\"]:::warning'' @ newline @
     ''    critical[\"Critical Service\"]:::critical'' @ newline @
     ''    healthy_conn[\"Healthy Connection\"];'' @ newline @
     ''    warning_conn[\"Warning Connection\"]:::warningConn;'' @ newline @
     ''    failing_conn[\"Failing Connection\"]:::failingConn;'' @ newline @
     ''  end'' @ newline @ newline @
     ''  %% Styles'' @ newline @
     ''  classDef healthy fill:#baffc9,stroke:#00ae11,color:#000'' @ newline @
     ''  classDef warning fill:#ffffba,stroke:#ffae00,color:#000'' @ newline @
     ''  classDef critical fill:#ffb3ba,stroke:#ff0000,color:#000'' @ newline @
     ''  classDef warningConn stroke:#ffae00,stroke-width:2px'' @ newline @
     ''  classDef failingConn stroke:#ff0000,stroke-width:2px,stroke-dasharray: 5 5'' @ newline"

section \<open>The specification's words\<close>

text \<open>
  The worst-case rollup as the specification words it: critical if any check is
  critical, else warning if any is warning, else passing.
\<close>

definition worstStatus :: "HealthStatus list \<Rightarrow> HealthStatus" where
  "worstStatus sts =
     (if Critical \<in> set sts then Critical
      else if Warning \<in> set sts then Warning
      else Passing)"

definition rolledUp :: "ServiceHealth \<Rightarrow> bool" where
  "rolledUp h = (health_status h = worstStatus (map check_status (checks h)))"

text \<open>
  A catalog answers a node query for a name with entries of that name, as Consul does.
\<close>

definition catalogConsistent :: "Registry \<Rightarrow> bool" where
  "catalogConsistent reg =
     (\<forall>key nodes e. catalogNodes reg key = Reply nodes \<longrightarrow> e \<in> set nodes \<longrightarrow> ServiceName e = key)"

text \<open>The six substring rules of the naming heuristic, as a list of pairs.\<close>

definition namingRules :: "(string \<times> string) list" where
  "namingRules =
     [(''api'', ''service''), (''web'', ''api''), (''service'', ''db''),
      (''frontend'', ''api''), (''api'', ''auth''), (''api'', ''payment'')]"

definition ruleMatches :: "string \<Rightarrow> string \<Rightarrow> string \<times> string \<Rightarrow> bool" where
  "ruleMatches sourceName targetName rule =
     (str_includes sourceName (fst rule) \<and> str_includes targetName (snd rule))"

definition matchingRules :: "string \<Rightarrow> string \<Rightarrow> (string \<times> string) list" where
  "matchingRules sourceName targetName = filter (ruleMatches sourceName targetName) namingRules"

text \<open>The characters of the class \<^verbatim>\<open>[A-Za-z0-9]\<close>, written out.\<close>

definition alnumChars :: string where
  "alnumChars = ''ABCDEFGHIJKLMNOPQRSTUVWXYZabcdefghijklmnopqrstuvwxyz0123456789''"

text \<open>The metrics of a service without the name they were asked for.\<close>

definition unnamed :: "ServiceMetrics \<Rightarrow> ServiceMetrics" where
  "unnamed m = m \<lparr> metrics_serviceName := [] \<rparr>"

text \<open>
  The issues that the mesh analysis collects when no connection is listed: the count of
  critical checks, the count of warning checks, the isolated services.
\<close>

definition quietIssues :: "Registry \<Rightarrow> string list" where
  "quietIssues reg =
     (if critical (getHealthSummary reg) > 0
      then [string_of_nat (critical (getHealthSummary reg)) @ '' services have critical health checks'']
      else []) @
     (if warning (getHealthSummary reg) > 0
      then [string_of_nat (warning (getHealthSummary reg)) @ '' services have warning health checks'']
      else []) @
     (if length (uniq (map name (getServices reg))) > 0
      then [string_of_nat (length (uniq (map name (getServices reg)))) @
              '' services appear to be isolated: '' @
              join '', '' (uniq (map name (getServices reg)))]
      else [])"

section \<open>Example registries\<close>

text \<open>An engine whose \<^verbatim>\<open>Math.sin\<close> is constant and whose multiplication is exact.\<close>

definition constMath :: "real \<Rightarrow> JsMath" where
  "constMath v = \<lparr> sin_d = (\<lambda>x. v), mul_d = (\<lambda>a b. a * b) \<rparr>"

definition plainNode :: "string \<Rightarrow> string \<Rightarrow> (string \<times> string) list \<Rightarrow> CatalogNode" where
  "plainNode sid nm m =
     \<lparr> ServiceID = sid, ServiceName = nm, ServiceAddress = [], Address = ''10.0.0.1'',
       ServicePort = 8080, Node = ''node1'', ServiceTags = None, ServiceMeta = Some m \<rparr>"

text \<open>The registry that holds the given catalog entries, checks and intentions.\<close>

definition snapshot ::
    "CatalogNode list \<Rightarrow> (string \<times> AgentCheck) list \<Rightarrow> Intention list reply \<Rightarrow> Registry" where
  "snapshot nodes cs ints =
     \<lparr> catalogServices = Reply (uniq (map ServiceName nodes)),
       catalogNodes = (\<lambda>key. Reply (filter (\<lambda>e. ServiceName e = key) nodes)),
       agentChecks = Reply cs,
       connectIntentions = ints \<rparr>"

definition demoChecks :: "(string \<times> AgentCheck) list" where
  "demoChecks =
     [(''web-http'', \<lparr> Name = ''HTTP'', Status = Warning, Output = ''HTTP GET 429'', Notes = None,
         CheckServiceID = ''web-1'', CheckServiceName = ''web'' \<rparr>),
      (''db-tcp'', \<lparr> Name = ''TCP'', Status = Passing, Output = ''ok'', Notes = None,
         CheckServiceID = ''db-1'', CheckServiceName = ''db'' \<rparr>),
      (''web-disk'', \<lparr> Name = ''Disk'', Status = Critical, Output = ''disk full'', Notes = None,
         CheckServiceID = ''web-1'', CheckServiceName = ''web'' \<rparr>),
      (''web-ttl'', \<lparr> Name = ''TTL'', Status = Unknown, Output = [], Notes = None,
         CheckServiceID = ''web-1'', CheckServiceName = ''web'' \<rparr>)]"

definition demoNodes :: "CatalogNode list" where
  "demoNodes =
     [plainNode ''consul'' ''consul'' [], plainNode ''web-1'' ''web'' [], plainNode ''db-1'' ''db'' []]"

definition demoRegistry :: Registry where
  "demoRegistry = snapshot demoNodes demoChecks Fails"

definition demoEdge :: "ConnStatus \<Rightarrow> ServiceConnection" where
  "demoEdge st =
     \<lparr> source = ''web'', destination = ''db'', status = st, protocol = ''http'',
       usesServiceMesh = False, intentionAction = None,
       latency = None, errorRate = None, requestVolume = None, errorMessage = None \<rparr>"

definition mailToCart :: "string \<Rightarrow> Intention" where
  "mailToCart action = \<lparr> SourceName = ''mail-4025'', DestinationName = ''cart-423'', Action = action \<rparr>"

definition meshRegistry :: Registry where
  "meshRegistry = snapshot demoNodes demoChecks (Reply [mailToCart ''allow'', mailToCart ''deny''])"

definition apiNodes :: "CatalogNode list" where
  "apiNodes = [plainNode ''api-1'' ''api'' [], plainNode ''auth-1'' ''auth-service'' []]"

definition apiRegistry :: Registry where
  "apiRegistry = snapshot apiNodes [] Fails"

text \<open>
  A service of the given name that declares \<open>db,cache\<close> as its upstream services, beside
  one service \<open>db\<close> and one service \<open>cache\<close>; the intentions query answers with no
  intention.
\<close>

definition orderNodes :: "string \<Rightarrow> CatalogNode list" where
  "orderNodes nm =
     [plainNode ''order-1'' nm [(''upstream_services'', ''db,cache'')],
      plainNode ''db-1'' ''db'' [], plainNode ''cache-1'' ''cache'' []]"

definition orderRegistry :: "string \<Rightarrow> Registry" where
  "orderRegistry nm = snapshot (orderNodes nm) [] (Reply [])"

definition emptyRegistry :: Registry where
  "emptyRegistry = snapshot [] [] Fails"

definition consulToWeb :: Intention where
  "consulToWeb = \<lparr> SourceName = ''consul'', DestinationName = ''web'', Action = ''deny'' \<rparr>"

definition consulIntentRegistry :: Registry where
  "consulIntentRegistry = snapshot demoNodes demoChecks (Reply [consulToWeb])"

text \<open>
  A catalog that lists the name \<open>web\<close> and answers every node query with an entry whose
  service name is \<open>consul\<close>.
\<close>

definition skewedRegistry :: Registry where
  "skewedRegistry =
     \<lparr> catalogServices = Reply [''web''],
       catalogNodes = (\<lambda>key. Reply [plainNode ''c-1'' ''consul'' []]),
       agentChecks = Reply [],
       connectIntentions = Fails \<rparr>"

section \<open>Health rollup: the status of a service and of the summary\<close>

lemma healthStep_rolledUp: "rolledUp acc \<Longrightarrow> rolledUp (healthStep sid entry acc)"
  by (cases "Status (snd entry)") (auto simp: rolledUp_def healthStep_def worstStatus_def Let_def)

lemma fold_healthStep_rolledUp:
  "rolledUp acc \<Longrightarrow> rolledUp (fold (healthStep sid) cs acc)"
  by (induction cs arbitrary: acc) (simp_all add: healthStep_rolledUp)

lemma healthStep_checks:
  "map check_status (checks (healthStep sid entry acc)) =
     map check_status (checks acc) @
     (if CheckServiceID (snd entry) = sid then [Status (snd entry)] else [])"
  by (simp add: healthStep_def Let_def)

lemma fold_healthStep_checks:
  "map check_status (checks (fold (healthStep sid) cs acc)) =
     map check_status (checks acc) @
     map (\<lambda>e. Status (snd e)) (filter (\<lambda>e. CheckServiceID (snd e) = sid) cs)"
  by (induction cs arbitrary: acc) (simp_all add: healthStep_checks)

lemma worstStatus_drop_unknown:
  "worstStatus (filter (\<lambda>s. s \<noteq> Unknown) sts) = worstStatus sts"
  by (auto simp: worstStatus_def)

lemma has_status:
  "(0 < length (filter (\<lambda>check. check_status check = s) xs)) = (s \<in> set (map check_status xs))"
  by (induction xs) auto

lemma summary_overall:
  "overallStatus (getHealthSummary reg) = worstStatus (map check_status (getAllHealthChecks reg))"
  by (simp add: getHealthSummary_def Let_def worstStatus_def has_status
        del: length_greater_0_conv set_map)

text \<open>
  Claim C1. When the agent answers with its checks, the checks kept for a service are
  those registered under its id, the status of the service's health is critical if one
  of them is critical, else warning if one is warning, else passing; leaving the unknown
  checks out does not change it; the health of every service record is rolled up so; and
  the overall status of the health summary is the same rollup over all checks.
\<close>

theorem health_rollup:
  assumes "agentChecks reg = Reply cs"
  shows "map check_status (checks (getServiceHealth reg sid)) =
           map (\<lambda>e. Status (snd e)) (filter (\<lambda>e. CheckServiceID (snd e) = sid) cs) \<and>
         health_status (getServiceHealth reg sid) =
           worstStatus (map check_status (checks (getServiceHealth reg sid))) \<and>
         health_status (getServiceHealth reg sid) =
           worstStatus (filter (\<lambda>s. s \<noteq> Unknown) (map check_status (checks (getServiceHealth reg sid)))) \<and>
         health_status (health (toService reg n)) =
           worstStatus (map check_status (checks (health (toService reg n)))) \<and>
         overallStatus (getHealthSummary reg) =
           worstStatus (map check_status (getAllHealthChecks reg))"
proof -
  let ?h0 = "\<lparr> health_status = Passing, checks = [] \<rparr>"
  have eq: "getServiceHealth reg s = fold (healthStep s) cs ?h0" for s
    using assms by (simp add: getServiceHealth_def)
  have r0: "rolledUp ?h0" by (simp add: rolledUp_def worstStatus_def)
  have r: "rolledUp (getServiceHealth reg s)" for s
    unfolding eq by (rule fold_healthStep_rolledUp [OF r0])
  have c: "map check_status (checks (getServiceHealth reg sid)) =
           map (\<lambda>e. Status (snd e)) (filter (\<lambda>e. CheckServiceID (snd e) = sid) cs)"
    unfolding eq by (simp add: fold_healthStep_checks)
  have s: "health_status (getServiceHealth reg sid) =
           worstStatus (map check_status (checks (getServiceHealth reg sid)))"
    using r [of sid] by (simp add: rolledUp_def)
  have t: "health_status (health (toService reg n)) =
           worstStatus (map check_status (checks (health (toService reg n))))"
    using r [of "ServiceID n"] by (simp add: toService_def Let_def rolledUp_def)
  show ?thesis
    using c s t summary_overall [of reg] by (simp only: worstStatus_drop_unknown simp_thms)
qed

lemma demo_agentChecks: "agentChecks demoRegistry = Reply demoChecks"
  by (simp add: demoRegistry_def snapshot_def)

theorem health_rollup_witness:
  "agentChecks demoRegistry = Reply demoChecks \<and>
   map check_status (checks (getServiceHealth demoRegistry ''web-1'')) = [Warning, Critical, Unknown] \<and>
   health_status (getServiceHealth demoRegistry ''web-1'') = Critical \<and>
   health_status (getServiceHealth demoRegistry ''db-1'') = Passing \<and>
   overallStatus (getHealthSummary demoRegistry) = Critical"
proof -
  note w = health_rollup [OF demo_agentChecks, where sid = "''web-1''"]
  note d = health_rollup [OF demo_agentChecks, where sid = "''db-1''"]
  have cw: "map check_status (checks (getServiceHealth demoRegistry ''web-1'')) =
              [Warning, Critical, Unknown]"
    using w by (simp add: demoChecks_def)
  have cd: "map check_status (checks (getServiceHealth demoRegistry ''db-1'')) = [Passing]"
    using d by (simp add: demoChecks_def)
  have ca: "map check_status (getAllHealthChecks demoRegistry) =
              [Warning, Passing, Critical, Unknown]"
    by (simp add: getAllHealthChecks_def demo_agentChecks demoChecks_def)
  have sw: "health_status (getServiceHealth demoRegistry ''web-1'') =
              worstStatus [Warning, Critical, Unknown]"
    using w unfolding cw by blast
  have sd: "health_status (getServiceHealth demoRegistry ''db-1'') = worstStatus [Passing]"
    using d unfolding cd by blast
  have sa: "overallStatus (getHealthSummary demoRegistry) =
              worstStatus [Warning, Passing, Critical, Unknown]"
    using w unfolding ca by blast
  show ?thesis
    using demo_agentChecks cw sw sd sa by (simp add: worstStatus_def)
qed

section \<open>The service list\<close>

lemma serviceLoop_origin:
  "serviceLoop reg acc keys = Some res \<Longrightarrow> s \<in> set res \<Longrightarrow>
     s \<in> set acc \<or>
     (\<exists>key nodes e. key \<in> set keys \<and> key \<noteq> ''consul'' \<and> catalogNodes reg key = Reply nodes \<and>
        e \<in> set nodes \<and> s = toService reg e)"
proof (induction keys arbitrary: acc)
  case Nil
  then show ?case by simp
next
  case (Cons key rest)
  show ?case
  proof (cases "key = ''consul''")
    case True
    with Cons.prems have "serviceLoop reg acc rest = Some res" by simp
    from Cons.IH [OF this Cons.prems(2)] show ?thesis by auto
  next
    case False
    show ?thesis
    proof (cases "catalogNodes reg key")
      case Fails
      with False Cons.prems show ?thesis by simp
    next
      case Malformed
      with False Cons.prems have "serviceLoop reg acc rest = Some res" by simp
      from Cons.IH [OF this Cons.prems(2)] show ?thesis by auto
    next
      case (Reply nodes)
      with False Cons.prems
      have "serviceLoop reg (acc @ map (toService reg) nodes) rest = Some res" by simp
      from Cons.IH [OF this Cons.prems(2)] Reply False show ?thesis by auto
    qed
  qed
qed

lemma snapshot_consistent: "catalogConsistent (snapshot nodes cs ints)"
  by (auto simp: catalogConsistent_def snapshot_def)

lemma demo_services:
  "map name (getServices demoRegistry) = [''web'', ''db'']"
  by (simp add: getServices_def demoRegistry_def snapshot_def demoNodes_def plainNode_def
        uniq_def setInsert_def toService_def Let_def)

section \<open>Metric synthesis\<close>

lemma enhance_keeps:
  "source (enhanceConnectionWithMetrics fp c) = source c"
  "destination (enhanceConnectionWithMetrics fp c) = destination c"
  "protocol (enhanceConnectionWithMetrics fp c) = protocol c"
  "usesServiceMesh (enhanceConnectionWithMetrics fp c) = usesServiceMesh c"
  "intentionAction (enhanceConnectionWithMetrics fp c) = intentionAction c"
  by (simp_all add: enhanceConnectionWithMetrics_def Let_def split_beta)

lemma enhance_blocked:
  "status c = Blocked \<Longrightarrow> enhanceConnectionWithMetrics fp c = c"
  by (simp add: enhanceConnectionWithMetrics_def)

text \<open>The error rate drawn for a pair of endpoints: the second number of the generator.\<close>

lemma enhance_errorRate:
  "status c \<noteq> Blocked \<Longrightarrow>
     errorRate (enhanceConnectionWithMetrics fp c) =
       Some (mul_d fp (fst (seededRandom fp (hashString (source c @ ''-'' @ destination c) + 1))) dbl_0_1)"
  by (simp add: enhanceConnectionWithMetrics_def Let_def split_beta seededRandom_def)

lemma enhance_status:
  "status c \<noteq> Blocked \<Longrightarrow> errorRate (enhanceConnectionWithMetrics fp c) = Some e \<Longrightarrow>
     status (enhanceConnectionWithMetrics fp c) =
       (if e > dbl_0_05 then Degraded
        else if e > 0 then ConnWarning
        else if status c = Inferred then Healthy
        else status c)"
  by (auto simp add: enhanceConnectionWithMetrics_def Let_def split_beta seededRandom_def)

text \<open>
  Claim C2. Synthesis returns a blocked connection as it is. Any other connection gets an
  error rate, and its returned status is degraded when that rate is above 0.05, warning
  when the rate is above 0 and at most 0.05, and healthy when the rate is 0 and the
  connection came in as inferred. (0.05 is the double of the source's literal.)
\<close>

theorem synthesis_rescoring:
  "(status c = Blocked \<longrightarrow> enhanceConnectionWithMetrics fp c = c) \<and>
   (status c \<noteq> Blocked \<longrightarrow>
      (\<exists>e. errorRate (enhanceConnectionWithMetrics fp c) = Some e \<and>
        (dbl_0_05 < e \<longrightarrow> status (enhanceConnectionWithMetrics fp c) = Degraded) \<and>
        (0 < e \<and> e \<le> dbl_0_05 \<longrightarrow> status (enhanceConnectionWithMetrics fp c) = ConnWarning) \<and>
        (e = 0 \<and> status c = Inferred \<longrightarrow> status (enhanceConnectionWithMetrics fp c) = Healthy)))"
proof (cases "status c = Blocked")
  case True
  then show ?thesis by (simp add: enhance_blocked)
next
  case False
  from enhance_errorRate [OF False] obtain e where
    e: "errorRate (enhanceConnectionWithMetrics fp c) = Some e" by blast
  have "0 < dbl_0_05" by (simp add: dbl_0_05_def)
  with enhance_status [OF False e] e False show ?thesis by auto
qed

lemma const_draw: "0 \<le> v \<Longrightarrow> v < 1 / 10000 \<Longrightarrow> seededRandom (constMath v) k = (v * 10000, k + 1)"
proof -
  assume "0 \<le> v" "v < 1 / 10000"
  then have "\<lfloor>v * 10000\<rfloor> = 0" by (simp add: floor_eq_iff)
  then show ?thesis by (simp add: seededRandom_def constMath_def Let_def)
qed

lemma demo_errorRate:
  assumes "0 \<le> v" "v < 1 / 10000" "st \<noteq> Blocked"
  shows "errorRate (enhanceConnectionWithMetrics (constMath v) (demoEdge st)) =
           Some (v * 10000 * dbl_0_1)"
proof -
  have s: "status (demoEdge st) \<noteq> Blocked"
    using assms(3) by (simp add: demoEdge_def)
  show ?thesis
    unfolding enhance_errorRate [OF s] const_draw [OF assms(1,2)]
    by (simp add: constMath_def)
qed

theorem synthesis_rescoring_witness:
  "enhanceConnectionWithMetrics (constMath 0) (demoEdge Blocked) = demoEdge Blocked \<and>
   status (enhanceConnectionWithMetrics (constMath (7 / 100000)) (demoEdge Allowed)) = Degraded \<and>
   status (enhanceConnectionWithMetrics (constMath (2 / 100000)) (demoEdge Allowed)) = ConnWarning \<and>
   status (enhanceConnectionWithMetrics (constMath 0) (demoEdge Inferred)) = Healthy"
proof -
  define hi where "hi = 7 / 10 * dbl_0_1"
  define lo where "lo = 2 / 10 * dbl_0_1"
  have a: "status (demoEdge Blocked) = Blocked" "status (demoEdge Allowed) \<noteq> Blocked"
    "status (demoEdge Inferred) \<noteq> Blocked" "status (demoEdge Inferred) = Inferred"
    by (simp_all add: demoEdge_def)
  have e1: "errorRate (enhanceConnectionWithMetrics (constMath (7 / 100000)) (demoEdge Allowed)) =
              Some hi"
    using demo_errorRate [of "7 / 100000" Allowed] by (simp add: hi_def)
  have e2: "errorRate (enhanceConnectionWithMetrics (constMath (2 / 100000)) (demoEdge Allowed)) =
              Some lo"
    using demo_errorRate [of "2 / 100000" Allowed] by (simp add: lo_def)
  have e3: "errorRate (enhanceConnectionWithMetrics (constMath 0) (demoEdge Inferred)) = Some 0"
    using demo_errorRate [of 0 Inferred] by simp
  have b: "dbl_0_05 < hi" "0 < lo" "lo \<le> dbl_0_05"
    by (simp_all add: dbl_0_05_def dbl_0_1_def hi_def lo_def)
  have w0: "enhanceConnectionWithMetrics (constMath 0) (demoEdge Blocked) = demoEdge Blocked"
    using synthesis_rescoring [of "demoEdge Blocked" "constMath 0"] a(1) by blast
  have w1: "status (enhanceConnectionWithMetrics (constMath (7 / 100000)) (demoEdge Allowed)) = Degraded"
    using synthesis_rescoring [of "demoEdge Allowed" "constMath (7 / 100000)"] a(2) b(1)
    unfolding e1 by auto
  have w2: "status (enhanceConnectionWithMetrics (constMath (2 / 100000)) (demoEdge Allowed)) = ConnWarning"
    using synthesis_rescoring [of "demoEdge Allowed" "constMath (2 / 100000)"] a(2) b(2,3)
    unfolding e2 by auto
  have w3: "status (enhanceConnectionWithMetrics (constMath 0) (demoEdge Inferred)) = Healthy"
    using synthesis_rescoring [of "demoEdge Inferred" "constMath 0"] a(3,4)
    unfolding e3 by auto
  from w0 w1 w2 w3 show ?thesis by blast
qed

section \<open>Determinism\<close>

text \<open>
  Claim C6. Two connections with the same source and destination that go through
  synthesis get the same latency, error rate and request volume, whatever else differs
  between them; and the metrics of a service are a function of the hash of its name, so
  two calls for one name give the same values.
\<close>

theorem synthesis_deterministic:
  "(source c1 = source c2 \<and> destination c1 = destination c2 \<and>
    status c1 \<noteq> Blocked \<and> status c2 \<noteq> Blocked \<longrightarrow>
      latency (enhanceConnectionWithMetrics fp c1) = latency (enhanceConnectionWithMetrics fp c2) \<and>
      errorRate (enhanceConnectionWithMetrics fp c1) = errorRate (enhanceConnectionWithMetrics fp c2) \<and>
      requestVolume (enhanceConnectionWithMetrics fp c1) =
        requestVolume (enhanceConnectionWithMetrics fp c2)) \<and>
   (hashString n1 = hashString n2 \<longrightarrow>
      unnamed (getServiceMetrics fp n1) = unnamed (getServiceMetrics fp n2))"
  by (simp add: enhanceConnectionWithMetrics_def getServiceMetrics_def unnamed_def Let_def split_beta)

lemma hash_Aa: "hashString ''Aa'' = hashString ''BB''"
  by (simp add: hashString_def)

theorem synthesis_deterministic_witness:
  "latency (enhanceConnectionWithMetrics exactMath (demoEdge Allowed)) =
     latency (enhanceConnectionWithMetrics exactMath (demoEdge Inferred)) \<and>
   errorRate (enhanceConnectionWithMetrics exactMath (demoEdge Allowed)) =
     errorRate (enhanceConnectionWithMetrics exactMath (demoEdge Inferred)) \<and>
   requestVolume (enhanceConnectionWithMetrics exactMath (demoEdge Allowed)) =
     requestVolume (enhanceConnectionWithMetrics exactMath (demoEdge Inferred)) \<and>
   unnamed (getServiceMetrics exactMath ''Aa'') = unnamed (getServiceMetrics exactMath ''BB'')"
  using synthesis_deterministic [where ?c1.0 = "demoEdge Allowed" and ?c2.0 = "demoEdge Inferred"
      and ?n1.0 = "''Aa''" and ?n2.0 = "''BB''" and fp = exactMath]
    hash_Aa
  by (simp add: demoEdge_def)

section \<open>The two tiers of connection inference\<close>

lemma below_ten: "{..<10::nat} = {0, 1, 2, 3, 4, 5, 6, 7, 8, 9}"
  by auto

lemma sin_coeff_sum10:
  "(\<Sum>m<10. sin_coeff m * (1::real) ^ m) = 305353 / 362880"
  unfolding below_ten by (simp add: sin_coeff_def fact_numeral)

lemma sin_one_enclosure: "84147 / 100000 < sin (1::real) \<and> sin (1::real) < 84148 / 100000"
proof -
  obtain t :: real where
    t: "sin 1 = (\<Sum>m<10. sin_coeff m * 1 ^ m) + (sin (t + 1 / 2 * real (10::nat) * pi) / fact 10) * 1 ^ 10"
    using Maclaurin_sin_expansion3 [of 10 1] by auto
  define r where "r = sin (t + 1 / 2 * real (10::nat) * pi)"
  have r: "- 1 \<le> r" "r \<le> 1" unfolding r_def by simp_all
  have f: "fact 10 = (3628800 :: real)" by (simp add: fact_numeral)
  have "sin 1 = 305353 / 362880 + r / 3628800"
    using t unfolding r_def [symmetric] sin_coeff_sum10 f by simp
  with r show ?thesis by simp
qed

text \<open>
  The second draw after seed 0 under exact arithmetic: the fraction of \<open>10000 sin 1\<close>.
\<close>

lemma exact_draw_one: "fst (seededRandom exactMath 1) = sin 1 * 10000 - 8414"
proof -
  have "\<lfloor>sin (1::real) * 10000\<rfloor> = 8414"
    using sin_one_enclosure by (simp add: floor_eq_iff)
  then show ?thesis
    by (simp add: seededRandom_def exactMath_def Let_def)
qed

lemma hash_mail_cart: "hashString ''mail-4025-cart-423'' = 0"
  by (simp add: hashString_def)

lemma mesh_intentions:
  "connectIntentions meshRegistry = Reply [mailToCart ''allow'', mailToCart ''deny'']"
  by (simp add: meshRegistry_def snapshot_def)

lemma intentions_first:
  "connectIntentions reg = Reply (i # rest) \<Longrightarrow>
     getServiceConnections fp reg =
       map (\<lambda>j. enhanceConnectionWithMetrics fp (intentionConnection j)) (i # rest)"
  by (simp add: getServiceConnections_def intentionConnections_def Let_def)

lemma no_intentions:
  "connectIntentions reg = Fails \<or> connectIntentions reg = Malformed \<or> connectIntentions reg = Reply [] \<Longrightarrow>
     getServiceConnections fp reg =
       map (enhanceConnectionWithMetrics fp) (inferConnections (getServices reg))"
  by (auto simp add: getServiceConnections_def intentionConnections_def Let_def)

lemma mail_cart_rate:
  "errorRate (enhanceConnectionWithMetrics exactMath (intentionConnection (mailToCart ''allow''))) =
     Some ((sin 1 * 10000 - 8414) * dbl_0_1)"
proof -
  have s: "status (intentionConnection (mailToCart ''allow'')) \<noteq> Blocked"
    by (simp add: intentionConnection_def mailToCart_def)
  have h: "hashString (source (intentionConnection (mailToCart ''allow'')) @ ''-'' @
             destination (intentionConnection (mailToCart ''allow''))) = 0"
    using hash_mail_cart by (simp add: intentionConnection_def mailToCart_def)
  have d: "fst (seededRandom exactMath (0 + 1)) = sin 1 * 10000 - 8414"
    using exact_draw_one by simp
  have m: "mul_d exactMath a b = a * b" for a b
    by (simp add: exactMath_def)
  show ?thesis
    unfolding enhance_errorRate [OF s] h d m ..
qed

text \<open>
  Claim C3, as stated, fails: the intention that allows \<open>mail-4025\<close> to reach
  \<open>cart-423\<close> is listed with status degraded, not allowed, because the connections of
  the first tier go through metric synthesis too. (The hash of the pair is 0, so the
  error rate is drawn from \<open>sin 1\<close>.)
\<close>

theorem allowed_intention_degraded:
  "Action (mailToCart ''allow'') = ''allow'' \<and>
   connectIntentions meshRegistry = Reply [mailToCart ''allow'', mailToCart ''deny''] \<and>
   map status (getServiceConnections exactMath meshRegistry) = [Degraded, Blocked]"
proof -
  have s: "status (intentionConnection (mailToCart ''allow'')) \<noteq> Blocked"
    by (simp add: intentionConnection_def mailToCart_def)
  have b: "status (intentionConnection (mailToCart ''deny'')) = Blocked"
    by (simp add: intentionConnection_def mailToCart_def)
  have "7 / 10 < sin (1::real) * 10000 - 8414"
    using sin_one_enclosure by simp
  then have "7 / 10 * dbl_0_1 < (sin 1 * 10000 - 8414) * dbl_0_1"
    by (simp add: dbl_0_1_def)
  moreover have "dbl_0_05 < 7 / 10 * dbl_0_1"
    by (simp add: dbl_0_05_def dbl_0_1_def)
  ultimately have g: "dbl_0_05 < (sin 1 * 10000 - 8414) * dbl_0_1" by simp
  have d: "status (enhanceConnectionWithMetrics exactMath (intentionConnection (mailToCart ''allow''))) =
             Degraded"
    using enhance_status [OF s mail_cart_rate] g by simp
  have e: "status (enhanceConnectionWithMetrics exactMath (intentionConnection (mailToCart ''deny''))) =
             Blocked"
    using enhance_blocked [OF b] b by simp
  show ?thesis
    unfolding intentions_first [OF mesh_intentions]
    using d e mesh_intentions by (simp add: mailToCart_def)
qed

text \<open>
  Claim C3, amended. When the intentions query answers with at least one intention, the
  result is exactly the list of the intentions' connections after metric synthesis:
  endpoints of the intention, protocol \<open>tcp\<close>, \<open>usesServiceMesh\<close> true, status blocked for
  an action other than allow, and for the action allow the status re-scored from the
  drawn error rate (degraded above 0.05, warning above 0, allowed at 0); the fallback
  adds nothing. When the query fails, or answers with no array or no intention, the
  result is the fallback's connections after synthesis.
\<close>

theorem intentions_win:
  "(connectIntentions reg = Reply (i # rest) \<longrightarrow>
      getServiceConnections fp reg =
        map (\<lambda>j. enhanceConnectionWithMetrics fp (intentionConnection j)) (i # rest) \<and>
      (\<forall>j \<in> set (i # rest).
         source (enhanceConnectionWithMetrics fp (intentionConnection j)) = SourceName j \<and>
         destination (enhanceConnectionWithMetrics fp (intentionConnection j)) = DestinationName j \<and>
         protocol (enhanceConnectionWithMetrics fp (intentionConnection j)) = ''tcp'' \<and>
         usesServiceMesh (enhanceConnectionWithMetrics fp (intentionConnection j)) \<and>
         (Action j \<noteq> ''allow'' \<longrightarrow>
            status (enhanceConnectionWithMetrics fp (intentionConnection j)) = Blocked) \<and>
         (Action j = ''allow'' \<longrightarrow>
            (\<exists>e. errorRate (enhanceConnectionWithMetrics fp (intentionConnection j)) = Some e \<and>
                 status (enhanceConnectionWithMetrics fp (intentionConnection j)) =
                   (if dbl_0_05 < e then Degraded else if 0 < e then ConnWarning else Allowed))))) \<and>
   (connectIntentions reg = Fails \<or> connectIntentions reg = Malformed \<or>
    connectIntentions reg = Reply [] \<longrightarrow>
      getServiceConnections fp reg =
        map (enhanceConnectionWithMetrics fp) (inferConnections (getServices reg)))"
proof -
  have per: "source (enhanceConnectionWithMetrics fp (intentionConnection j)) = SourceName j \<and>
         destination (enhanceConnectionWithMetrics fp (intentionConnection j)) = DestinationName j \<and>
         protocol (enhanceConnectionWithMetrics fp (intentionConnection j)) = ''tcp'' \<and>
         usesServiceMesh (enhanceConnectionWithMetrics fp (intentionConnection j)) \<and>
         (Action j \<noteq> ''allow'' \<longrightarrow>
            status (enhanceConnectionWithMetrics fp (intentionConnection j)) = Blocked) \<and>
         (Action j = ''allow'' \<longrightarrow>
            (\<exists>e. errorRate (enhanceConnectionWithMetrics fp (intentionConnection j)) = Some e \<and>
                 status (enhanceConnectionWithMetrics fp (intentionConnection j)) =
                   (if dbl_0_05 < e then Degraded else if 0 < e then ConnWarning else Allowed)))" for j
  proof (cases "Action j = ''allow''")
    case True
    then have s: "status (intentionConnection j) \<noteq> Blocked"
      and a: "status (intentionConnection j) = Allowed"
      by (simp_all add: intentionConnection_def)
    from enhance_errorRate [OF s] obtain e where
      e: "errorRate (enhanceConnectionWithMetrics fp (intentionConnection j)) = Some e" by blast
    from enhance_status [OF s e] a e True show ?thesis
      by (simp add: enhance_keeps) (simp add: intentionConnection_def)
  next
    case False
    then have b: "status (intentionConnection j) = Blocked"
      by (simp add: intentionConnection_def)
    from enhance_blocked [OF b] b False show ?thesis
      by (simp add: intentionConnection_def)
  qed
  show ?thesis
    using per intentions_first [of reg i rest fp] no_intentions [of reg fp] by blast
qed

lemma api_intentions: "connectIntentions apiRegistry = Fails"
  by (simp add: apiRegistry_def snapshot_def)

lemma endpoints_enhance:
  "map (\<lambda>c. (source c, destination c)) (map (enhanceConnectionWithMetrics fp) xs) =
     map (\<lambda>c. (source c, destination c)) xs"
  by (simp add: enhance_keeps)

lemma api_services_list:
  "\<exists>a b. getServices apiRegistry = [a, b] \<and>
     service_id a = ''api-1'' \<and> name a = ''api'' \<and> meta a = [] \<and>
     service_id b = ''auth-1'' \<and> name b = ''auth-service'' \<and> meta b = []"
  by (simp add: getServices_def apiRegistry_def snapshot_def apiNodes_def plainNode_def
        uniq_def setInsert_def toService_def Let_def)

lemma api_edges:
  "map (\<lambda>c. (source c, destination c)) (inferConnections (getServices apiRegistry)) =
     [(''api'', ''auth-service'')]"
proof -
  from api_services_list obtain a b where
    l: "getServices apiRegistry = [a, b]"
    and a: "service_id a = ''api-1''" "name a = ''api''" "meta a = []"
    and b: "service_id b = ''auth-1''" "name b = ''auth-service''" "meta b = []"
    by blast
  show ?thesis
    unfolding l
    by (simp add: inferConnections_def metadataEdges_def namingEdges_def upstreams_def a b
          namingMatch_def inferredConnection_def)
qed

lemma const_zero_rate:
  "status c \<noteq> Blocked \<Longrightarrow>
     errorRate (enhanceConnectionWithMetrics (constMath 0) c) = Some 0"
  unfolding enhance_errorRate
  using const_draw [of 0] by (simp add: constMath_def)

theorem intentions_win_witness:
  "connectIntentions meshRegistry = Reply [mailToCart ''allow'', mailToCart ''deny''] \<and>
   map (\<lambda>c. (source c, destination c, protocol c, usesServiceMesh c))
     (getServiceConnections (constMath 0) meshRegistry) =
     [(''mail-4025'', ''cart-423'', ''tcp'', True), (''mail-4025'', ''cart-423'', ''tcp'', True)] \<and>
   map status (getServiceConnections (constMath 0) meshRegistry) = [Allowed, Blocked] \<and>
   connectIntentions apiRegistry = Fails \<and>
   map (\<lambda>c. (source c, destination c)) (getServiceConnections (constMath 0) apiRegistry) =
     [(''api'', ''auth-service'')]"
proof -
  note w = intentions_win [of meshRegistry "mailToCart ''allow''" "[mailToCart ''deny'']" "constMath 0"]
  note v = intentions_win [of apiRegistry "mailToCart ''allow''" "[]" "constMath 0"]
  have r: "getServiceConnections (constMath 0) meshRegistry =
             map (\<lambda>j. enhanceConnectionWithMetrics (constMath 0) (intentionConnection j))
               [mailToCart ''allow'', mailToCart ''deny'']"
    using w mesh_intentions by blast
  have f: "\<forall>j \<in> set [mailToCart ''allow'', mailToCart ''deny''].
         source (enhanceConnectionWithMetrics (constMath 0) (intentionConnection j)) = SourceName j \<and>
         destination (enhanceConnectionWithMetrics (constMath 0) (intentionConnection j)) = DestinationName j \<and>
         protocol (enhanceConnectionWithMetrics (constMath 0) (intentionConnection j)) = ''tcp'' \<and>
         usesServiceMesh (enhanceConnectionWithMetrics (constMath 0) (intentionConnection j)) \<and>
         (Action j \<noteq> ''allow'' \<longrightarrow>
            status (enhanceConnectionWithMetrics (constMath 0) (intentionConnection j)) = Blocked) \<and>
         (Action j = ''allow'' \<longrightarrow>
            (\<exists>e. errorRate (enhanceConnectionWithMetrics (constMath 0) (intentionConnection j)) = Some e \<and>
                 status (enhanceConnectionWithMetrics (constMath 0) (intentionConnection j)) =
                   (if dbl_0_05 < e then Degraded else if 0 < e then ConnWarning else Allowed)))"
    using w mesh_intentions by blast
  have z: "errorRate (enhanceConnectionWithMetrics (constMath 0)
             (intentionConnection (mailToCart ''allow''))) = Some 0"
    by (rule const_zero_rate) (simp add: intentionConnection_def mailToCart_def)
  have p: "0 < dbl_0_05" by (simp add: dbl_0_05_def)
  have st: "status (enhanceConnectionWithMetrics (constMath 0)
             (intentionConnection (mailToCart ''allow''))) = Allowed"
    using f z p by (auto simp: mailToCart_def)
  have sb: "status (enhanceConnectionWithMetrics (constMath 0)
             (intentionConnection (mailToCart ''deny''))) = Blocked"
    using f by (auto simp: mailToCart_def)
  have fields: "map (\<lambda>c. (source c, destination c, protocol c, usesServiceMesh c))
     (getServiceConnections (constMath 0) meshRegistry) =
     [(''mail-4025'', ''cart-423'', ''tcp'', True), (''mail-4025'', ''cart-423'', ''tcp'', True)]"
    unfolding r using f by (simp add: mailToCart_def)
  have stat: "map status (getServiceConnections (constMath 0) meshRegistry) = [Allowed, Blocked]"
    unfolding r using st sb by simp
  have fb: "getServiceConnections (constMath 0) apiRegistry =
              map (enhanceConnectionWithMetrics (constMath 0)) (inferConnections (getServices apiRegistry))"
    using v api_intentions by blast
  have api: "map (\<lambda>c. (source c, destination c)) (getServiceConnections (constMath 0) apiRegistry) =
     [(''api'', ''auth-service'')]"
    unfolding fb endpoints_enhance by (rule api_edges)
  from mesh_intentions fields stat api_intentions api show ?thesis by blast
qed

section \<open>The naming heuristic\<close>

text \<open>
  Claim C4, as stated, fails: the pair \<open>api\<close>, \<open>auth-service\<close> matches two rules, and the
  result holds one connection for it.
\<close>

theorem two_rules_one_edge:
  "matchingRules ''api'' ''auth-service'' = [(''api'', ''service''), (''api'', ''auth'')] \<and>
   map (\<lambda>c. (source c, destination c)) (getServiceConnections exactMath apiRegistry) =
     [(''api'', ''auth-service'')]"
proof -
  have "matchingRules ''api'' ''auth-service'' = [(''api'', ''service''), (''api'', ''auth'')]"
    by (simp add: matchingRules_def namingRules_def ruleMatches_def)
  moreover have "map (\<lambda>c. (source c, destination c)) (getServiceConnections exactMath apiRegistry) =
     [(''api'', ''auth-service'')]"
    using no_intentions [of apiRegistry exactMath] api_intentions api_edges
    by (simp add: endpoints_enhance del: map_map)
  ultimately show ?thesis by blast
qed

lemma namingMatch_rules: "namingMatch s t = (matchingRules s t \<noteq> [])"
  by (auto simp: namingMatch_def matchingRules_def namingRules_def ruleMatches_def)

text \<open>
  Claim C4, amended. The naming heuristic adds, for a source service, one inferred
  connection with protocol \<open>http\<close> for every target record with another id whose pair of
  names matches at least one of the six rules: one connection for a pair however many
  rules match, none when none matches.
\<close>

theorem naming_one_edge_per_pair:
  "namingEdges services src =
     map (inferredConnection ''http'' src)
       (filter (\<lambda>tgt. service_id src \<noteq> service_id tgt \<and> matchingRules (name src) (name tgt) \<noteq> [])
          services) \<and>
   length (namingEdges [tgt] src) =
     (if service_id src \<noteq> service_id tgt \<and> matchingRules (name src) (name tgt) \<noteq> [] then 1 else 0) \<and>
   namingEdges services src = concat (map (\<lambda>tgt. namingEdges [tgt] src) services)"
proof -
  have "namingEdges xs src = concat (map (\<lambda>tgt. namingEdges [tgt] src) xs)" for xs
    by (induction xs) (simp_all add: namingEdges_def)
  then show ?thesis
    by (simp add: namingEdges_def namingMatch_rules)
qed

theorem naming_one_edge_per_pair_witness:
  "length (namingEdges [toService apiRegistry (plainNode ''auth-1'' ''auth-service'' [])]
             (toService apiRegistry (plainNode ''api-1'' ''api'' []))) = 1 \<and>
   length (matchingRules ''api'' ''auth-service'') = 2 \<and>
   length (namingEdges [toService apiRegistry (plainNode ''api-1'' ''api'' [])]
             (toService apiRegistry (plainNode ''auth-1'' ''auth-service'' []))) = 0"
proof -
  define a where "a = toService apiRegistry (plainNode ''api-1'' ''api'' [])"
  define b where "b = toService apiRegistry (plainNode ''auth-1'' ''auth-service'' [])"
  have f: "service_id a = ''api-1''" "name a = ''api''"
          "service_id b = ''auth-1''" "name b = ''auth-service''"
    by (simp_all add: a_def b_def toService_def plainNode_def Let_def)
  have m: "matchingRules ''api'' ''auth-service'' = [(''api'', ''service''), (''api'', ''auth'')]"
          "matchingRules ''auth-service'' ''api'' = []"
    by (simp_all add: matchingRules_def namingRules_def ruleMatches_def)
  have "length (namingEdges [b] a) = 1 \<and> length (matchingRules ''api'' ''auth-service'') = 2 \<and>
        length (namingEdges [a] b) = 0"
    using naming_one_edge_per_pair [of "[b]" a b] naming_one_edge_per_pair [of "[a]" b a]
    by (simp add: f m)
  then show ?thesis
    unfolding a_def b_def .
qed

section \<open>Upstream services declared in metadata\<close>

lemma inferred_fields:
  "source (inferredConnection p src tgt) = name src"
  "destination (inferredConnection p src tgt) = name tgt"
  "status (inferredConnection p src tgt) = Inferred"
  "usesServiceMesh (inferredConnection p src tgt) = False"
  by (simp_all add: inferredConnection_def)

lemma edges_source:
  "c \<in> set (metadataEdges services src @ namingEdges services src) \<Longrightarrow> source c = name src"
  by (auto simp: metadataEdges_def namingEdges_def inferred_fields)

lemma edges_inferred:
  "c \<in> set (inferConnections services) \<Longrightarrow> status c = Inferred \<and> \<not> usesServiceMesh c"
  by (auto simp: inferConnections_def metadataEdges_def namingEdges_def inferred_fields)

lemma enhance_inferred:
  "status c = Inferred \<Longrightarrow>
     status (enhanceConnectionWithMetrics fp c) \<in> {Healthy, ConnWarning, Degraded}"
  by (simp add: enhanceConnectionWithMetrics_def Let_def split_beta)

lemma filter_concat_keyed:
  "(\<And>x c. x \<in> set xs \<Longrightarrow> c \<in> set (f x) \<Longrightarrow> P c = Q x) \<Longrightarrow>
     filter P (concat (map f xs)) = concat (map f (filter Q xs))"
proof (induction xs)
  case Nil
  then show ?case by simp
next
  case (Cons x xs)
  have a: "filter P (f x) = (if Q x then f x else [])"
    using Cons.prems [of x] by (auto simp: filter_empty_conv filter_id_conv)
  have b: "filter P (concat (map f xs)) = concat (map f (filter Q xs))"
    using Cons.IH Cons.prems by simp
  show ?case by (simp add: a b)
qed

lemma edges_from:
  "filter (\<lambda>c. source c = n) (inferConnections services) =
     concat (map (\<lambda>src. metadataEdges services src @ namingEdges services src)
               (filter (\<lambda>s. name s = n) services))"
  unfolding inferConnections_def
  by (rule filter_concat_keyed) (simp add: edges_source)

lemma filter_source_enhance:
  "filter (\<lambda>c. source c = n) (map (enhanceConnectionWithMetrics fp) xs) =
     map (enhanceConnectionWithMetrics fp) (filter (\<lambda>c. source c = n) xs)"
  by (induction xs) (simp_all add: enhance_keeps)

lemma trim_db_cache: "trim ''db'' = ''db''" "trim ''cache'' = ''cache''"
  by (simp_all add: trim_def isWhiteSpace_def)

lemma empty_tier:
  "intentionConnections reg = [] \<Longrightarrow>
     getServiceConnections fp reg =
       map (enhanceConnectionWithMetrics fp) (inferConnections (getServices reg))"
  by (simp add: getServiceConnections_def Let_def)

lemma order_services:
  "nm \<noteq> ''consul'' \<Longrightarrow> nm \<noteq> ''db'' \<Longrightarrow> nm \<noteq> ''cache'' \<Longrightarrow>
     getServices (orderRegistry nm) = map (toService (orderRegistry nm)) (orderNodes nm)"
  by (simp add: getServices_def orderRegistry_def snapshot_def orderNodes_def plainNode_def
        uniq_def setInsert_def)

lemma order_fields:
  "map (\<lambda>s. (service_id s, name s, meta s)) (map (toService reg) (orderNodes nm)) =
     [(''order-1'', nm, [(''upstream_services'', ''db,cache'')]),
      (''db-1'', ''db'', []), (''cache-1'', ''cache'', [])]"
  by (simp add: orderNodes_def plainNode_def toService_def Let_def)

lemma order_tier: "intentionConnections (orderRegistry nm) = []"
  by (simp add: intentionConnections_def orderRegistry_def snapshot_def)

text \<open>
  Claim C5, as stated, fails: with a declaring service named \<open>order-service\<close>, three
  connections originate at it, two of them to \<open>db\<close>, since the naming rule for
  \<open>service\<close> and \<open>db\<close> adds its own; and no listed connection has the status inferred.
\<close>

theorem three_edges_from_order_service:
  "map destination
     (filter (\<lambda>c. source c = ''order-service'')
        (getServiceConnections exactMath (orderRegistry ''order-service''))) =
     [''db'', ''cache'', ''db''] \<and>
   Inferred \<notin> set (map status (getServiceConnections exactMath (orderRegistry ''order-service'')))"
proof -
  let ?reg = "orderRegistry ''order-service''"
  obtain a b c where l: "map (toService ?reg) (orderNodes ''order-service'') = [a, b, c]"
    by (simp add: orderNodes_def)
  from order_fields [of ?reg "''order-service''"]
  have a: "service_id a = ''order-1''" "name a = ''order-service''"
          "meta a = [(''upstream_services'', ''db,cache'')]"
    and b: "service_id b = ''db-1''" "name b = ''db''" "meta b = []"
    and c: "service_id c = ''cache-1''" "name c = ''cache''" "meta c = []"
    unfolding l by simp_all
  have s: "getServices ?reg = [a, b, c]"
    using order_services [of "''order-service''"] l by simp
  have "map destination (filter (\<lambda>c. source c = ''order-service'') (inferConnections [a, b, c])) =
          [''db'', ''cache'', ''db'']"
    by (simp add: inferConnections_def metadataEdges_def namingEdges_def upstreams_def a b c
          namingMatch_def inferredConnection_def trim_def isWhiteSpace_def)
  then have one: "map destination
     (filter (\<lambda>c. source c = ''order-service'') (getServiceConnections exactMath ?reg)) =
     [''db'', ''cache'', ''db'']"
    unfolding empty_tier [OF order_tier] filter_source_enhance s
    by (simp add: enhance_keeps comp_def)
  have two: "Inferred \<notin> set (map status (getServiceConnections exactMath ?reg))"
  proof
    assume "Inferred \<in> set (map status (getServiceConnections exactMath ?reg))"
    then obtain c0 where c0: "c0 \<in> set (inferConnections (getServices ?reg))"
      and i: "status (enhanceConnectionWithMetrics exactMath c0) = Inferred"
      unfolding empty_tier [OF order_tier] by auto
    from edges_inferred [OF c0] enhance_inferred [of c0 exactMath] i show False by simp
  qed
  from one two show ?thesis by blast
qed

text \<open>
  Claim C5, amended. Let the intentions tier yield no connection, let \<open>S\<close> be the only
  service record of its name, with metadata \<open>upstream_services = db,cache\<close>, and let one
  record be named \<open>db\<close> and one \<open>cache\<close>. Then the listed connections that originate at
  \<open>S\<close> are the two declared ones, to \<open>db\<close> and to \<open>cache\<close>, followed by those the naming
  heuristic adds for \<open>S\<close>: exactly the two when the heuristic pairs \<open>S\<close> with no service.
  Every listed connection is outside the mesh and carries the status that synthesis
  gave it: healthy, warning or degraded.
\<close>

theorem upstream_metadata_edges:
  assumes tier: "intentionConnections reg = []"
    and only: "filter (\<lambda>s. name s = name S) (getServices reg) = [S]"
    and ups: "map_of (meta S) ''upstream_services'' = Some ''db,cache''"
    and db: "filter (\<lambda>s. name s = ''db'') (getServices reg) = [D]"
    and cache: "filter (\<lambda>s. name s = ''cache'') (getServices reg) = [C]"
  shows "filter (\<lambda>c. source c = name S) (getServiceConnections fp reg) =
           map (enhanceConnectionWithMetrics fp)
             ([inferredConnection (metaProtocol S) S D, inferredConnection (metaProtocol S) S C] @
              namingEdges (getServices reg) S) \<and>
         ((\<forall>t \<in> set (getServices reg).
             service_id S \<noteq> service_id t \<longrightarrow> \<not> namingMatch (name S) (name t)) \<longrightarrow>
            map destination (filter (\<lambda>c. source c = name S) (getServiceConnections fp reg)) =
              [''db'', ''cache'']) \<and>
         (\<forall>c \<in> set (getServiceConnections fp reg).
            status c \<in> {Healthy, ConnWarning, Degraded} \<and> \<not> usesServiceMesh c)"
proof -
  let ?svcs = "getServices reg"
  have m: "metadataEdges ?svcs S =
             [inferredConnection (metaProtocol S) S D, inferredConnection (metaProtocol S) S C]"
    by (simp add: metadataEdges_def upstreams_def ups trim_db_cache db cache
          del: split_on.simps)
       (simp add: trim_db_cache db cache)
  have f: "filter (\<lambda>c. source c = name S) (getServiceConnections fp reg) =
             map (enhanceConnectionWithMetrics fp) (metadataEdges ?svcs S @ namingEdges ?svcs S)"
    unfolding empty_tier [OF tier] filter_source_enhance edges_from only by simp
  have dn: "name D = ''db''" "name C = ''cache''"
  proof -
    have "D \<in> set (filter (\<lambda>s. name s = ''db'') ?svcs)" unfolding db by simp
    then show "name D = ''db''" by simp
    have "C \<in> set (filter (\<lambda>s. name s = ''cache'') ?svcs)" unfolding cache by simp
    then show "name C = ''cache''" by simp
  qed
  have one: "filter (\<lambda>c. source c = name S) (getServiceConnections fp reg) =
           map (enhanceConnectionWithMetrics fp)
             ([inferredConnection (metaProtocol S) S D, inferredConnection (metaProtocol S) S C] @
              namingEdges ?svcs S)"
    unfolding f m ..
  have two: "map destination (filter (\<lambda>c. source c = name S) (getServiceConnections fp reg)) =
              [''db'', ''cache'']"
    if "\<forall>t \<in> set ?svcs. service_id S \<noteq> service_id t \<longrightarrow> \<not> namingMatch (name S) (name t)"
  proof -
    have "namingEdges ?svcs S = []"
      using that by (auto simp: namingEdges_def filter_empty_conv)
    then show ?thesis
      unfolding one by (simp add: enhance_keeps inferred_fields dn)
  qed
  have three: "status c \<in> {Healthy, ConnWarning, Degraded} \<and> \<not> usesServiceMesh c"
    if "c \<in> set (getServiceConnections fp reg)" for c
  proof -
    from that obtain c0 where c0: "c0 \<in> set (inferConnections ?svcs)"
      and c: "c = enhanceConnectionWithMetrics fp c0"
      unfolding empty_tier [OF tier] by auto
    from edges_inferred [OF c0] enhance_inferred [of c0 fp] show ?thesis
      unfolding c by (simp add: enhance_keeps)
  qed
  from one two three show ?thesis by blast
qed

theorem upstream_metadata_edges_witness:
  "intentionConnections (orderRegistry ''orders'') = [] \<and>
   map name (getServices (orderRegistry ''orders'')) = [''orders'', ''db'', ''cache''] \<and>
   map destination
     (filter (\<lambda>c. source c = ''orders'')
        (getServiceConnections exactMath (orderRegistry ''orders''))) = [''db'', ''cache'']"
proof -
  let ?reg = "orderRegistry ''orders''"
  obtain a b c where l: "map (toService ?reg) (orderNodes ''orders'') = [a, b, c]"
    by (simp add: orderNodes_def)
  from order_fields [of ?reg "''orders''"]
  have a: "service_id a = ''order-1''" "name a = ''orders''"
          "meta a = [(''upstream_services'', ''db,cache'')]"
    and b: "service_id b = ''db-1''" "name b = ''db''" "meta b = []"
    and c: "service_id c = ''cache-1''" "name c = ''cache''" "meta c = []"
    unfolding l by simp_all
  have s: "getServices ?reg = [a, b, c]"
    using order_services [of "''orders''"] l by simp
  have h1: "filter (\<lambda>s. name s = name a) (getServices ?reg) = [a]"
    and h2: "map_of (meta a) ''upstream_services'' = Some ''db,cache''"
    and h3: "filter (\<lambda>s. name s = ''db'') (getServices ?reg) = [b]"
    and h4: "filter (\<lambda>s. name s = ''cache'') (getServices ?reg) = [c]"
    and h5: "\<forall>t \<in> set (getServices ?reg).
               service_id a \<noteq> service_id t \<longrightarrow> \<not> namingMatch (name a) (name t)"
    unfolding s by (simp_all add: a b c namingMatch_def)
  from upstream_metadata_edges [OF order_tier h1 h2 h3 h4, of exactMath] h5
  have "map destination (filter (\<lambda>c. source c = name a) (getServiceConnections exactMath ?reg)) =
          [''db'', ''cache'']"
    by blast
  then show ?thesis unfolding a using order_tier s a b c by simp
qed

section \<open>Analysis of an unknown service\<close>

lemma find_name_None: "(find (\<lambda>s. name s = n) xs = None) = (n \<notin> set (map name xs))"
  by (induction xs) auto

text \<open>
  Claim C7. For a name that no service of the list has, \<open>analyzeService\<close> throws the
  error \<open>Service <name> not found\<close> to its caller; for a name that a service has, it
  returns an analysis.
\<close>

theorem analyzeService_not_found:
  "(n \<notin> set (map name (getServices reg)) \<longrightarrow>
      analyzeService fp reg n = Inl (Error (''Service '' @ n @ '' not found''))) \<and>
   (n \<in> set (map name (getServices reg)) \<longrightarrow> (\<exists>a. analyzeService fp reg n = Inr a))"
proof (cases "find (\<lambda>s. name s = n) (getServices reg)")
  case None
  have g: "getServiceByName fp reg n = None"
    using None by (simp add: getServiceByName_def Let_def)
  have m: "n \<notin> set (map name (getServices reg))"
    using None find_name_None [of n "getServices reg"] by blast
  show ?thesis
    using m by (simp add: analyzeService_def g del: set_map)
next
  case (Some service)
  have g: "getServiceByName fp reg n =
             Some (enrichServiceDetails service (getServiceConnections fp reg))"
    using Some by (simp add: getServiceByName_def Let_def)
  have m: "n \<in> set (map name (getServices reg))"
    using Some find_name_None [of n "getServices reg"] by auto
  show ?thesis
    using m by (simp add: analyzeService_def g Let_def split_beta del: set_map)
qed

theorem analyzeService_not_found_witness:
  "''nonexistent'' \<notin> set (map name (getServices demoRegistry)) \<and>
   analyzeService (constMath 0) demoRegistry ''nonexistent'' =
     Inl (Error ''Service nonexistent not found'') \<and>
   ''db'' \<in> set (map name (getServices demoRegistry)) \<and>
   (\<exists>a. analyzeService (constMath 0) demoRegistry ''db'' = Inr a)"
  using analyzeService_not_found [of "''nonexistent''" demoRegistry "constMath 0"]
    analyzeService_not_found [of "''db''" demoRegistry "constMath 0"]
  by (simp add: demo_services)

section \<open>Mesh analysis without connections\<close>

lemma mapPut_fresh_sets:
  "mapPut k [] (map (\<lambda>k. (k, [])) ks) = map (\<lambda>k. (k, [])) (setInsert k ks)"
  by (induction ks) (auto simp: setInsert_def)

lemma fold_mapPut_names:
  "fold (\<lambda>service. mapPut (name service) []) services (map (\<lambda>k. (k, [])) ks) =
     map (\<lambda>k. (k, [])) (fold setInsert (map name services) ks)"
  by (induction services arbitrary: ks) (simp_all add: mapPut_fresh_sets)

lemma connectivity_no_connections:
  "serviceConnectivityMap services [] = map (\<lambda>k. (k, [])) (uniq (map name services))"
  using fold_mapPut_names [of services "[]"] by (simp add: serviceConnectivityMap_def uniq_def)

lemma isolated_among:
  "map fst (filter (\<lambda>entry. \<not> (length (snd entry) > 0) \<and>
                     \<not> list_ex (\<lambda>out. fst entry \<in> set out) (map snd (map (\<lambda>k. (k, [])) js)))
              (map (\<lambda>k. (k, [])) ks)) = ks"
  by (induction ks) (simp_all add: list_ex_iff)

lemma isolated_all: "isolatedServices (map (\<lambda>k. (k, [])) ks) = ks"
  unfolding isolatedServices_def by (rule isolated_among)

lemma set_fold_setInsert: "set (fold setInsert xs acc) = set acc \<union> set xs"
  by (induction xs arbitrary: acc) (auto simp: setInsert_def)

lemma set_uniq: "set (uniq xs) = set xs"
  by (simp add: uniq_def set_fold_setInsert)

lemma uniq_empty: "(uniq xs = []) = (xs = [])"
  using set_uniq [of xs] by (metis set_empty)

lemma digitChar_values: "map digitChar [0, 1, 2, 3, 4, 5, 6, 7, 8, 9] = ''0123456789''"
  by code_simp

lemma digitChar_digits: "d < 10 \<Longrightarrow> digitChar d \<in> set ''0123456789''"
proof -
  assume "d < 10"
  then have "d \<in> set [0, 1, 2, 3, 4, 5, 6, 7, 8, 9]"
    by (simp del: One_nat_def) arith
  then have "digitChar d \<in> set (map digitChar [0, 1, 2, 3, 4, 5, 6, 7, 8, 9])"
    unfolding set_map by (rule imageI)
  then show ?thesis
    unfolding digitChar_values .
qed

lemma string_of_nat_head:
  "string_of_nat n \<noteq> [] \<and> hd (string_of_nat n) \<in> set ''0123456789''"
proof (induction n rule: string_of_nat.induct)
  case (1 n)
  show ?case
  proof (cases "n < 10")
    case True
    then show ?thesis
      using digitChar_digits [of n] by (subst (1 2) string_of_nat.simps) simp
  next
    case False
    with 1 show ?thesis
      by (subst (1 2) string_of_nat.simps) simp
  qed
qed

lemma optional_items_member:
  "x \<in> set ((if a then [u] else []) @ (if b then [v] else []) @ (if c then [w] else [])) \<Longrightarrow>
     x = u \<or> x = v \<or> x = w"
  by (auto split: if_splits)

lemma optional_items_last:
  "c \<Longrightarrow> w \<in> set ((if a then [u] else []) @ (if b then [v] else []) @ (if c then [w] else []))"
  by simp

lemma optional_items_empty:
  "((if a then [u] else []) @ (if b then [v] else []) @ (if c then [w] else []) = []) =
     (\<not> a \<and> \<not> b \<and> \<not> c)"
  by simp

lemma sentinel_or_items:
  "x \<in> set q \<Longrightarrow> x \<in> set (if length q = 0 then [s] else q)"
  "s \<notin> set q \<Longrightarrow> (s \<in> set (if length q = 0 then [s] else q)) = (q = [])"
  by auto

lemma counted_not_sentinel:
  "string_of_nat n @ rest \<noteq> ''No issues detected in the service mesh''"
proof
  assume a: "string_of_nat n @ rest = ''No issues detected in the service mesh''"
  have "hd (string_of_nat n @ rest) = hd (string_of_nat n)"
    using string_of_nat_head [of n] by simp
  with a have "hd (string_of_nat n) = CHR ''N''" by simp
  with string_of_nat_head [of n] show False by simp
qed

lemma summary_passing:
  "critical (getHealthSummary reg) = 0 \<Longrightarrow> warning (getHealthSummary reg) = 0 \<Longrightarrow>
     overallStatus (getHealthSummary reg) = Passing"
  by (simp add: getHealthSummary_def Let_def)

lemma mesh_issues_if:
  "mesh_issues (if c then \<lparr> mesh_summary = s1, mesh_issues = i1, mesh_recommendations = r1 \<rparr>
                else \<lparr> mesh_summary = s2, mesh_issues = i2, mesh_recommendations = r2 \<rparr>) =
     (if c then i1 else i2)"
  by simp

lemma mesh_issues_quiet:
  assumes "getServiceConnections fp reg = []"
  shows "mesh_issues (analyzeServiceMesh fp reg) =
           (if length (quietIssues reg) = 0 then [''No issues detected in the service mesh'']
            else quietIssues reg)"
proof -
  have f: "filter connFailing [] = []" by simp
  have l: "\<not> (length ([] :: ServiceConnection list) > 0)" by simp
  show ?thesis
    unfolding analyzeServiceMesh_def Let_def mesh_issues_if assms f
      connectivity_no_connections isolated_all quietIssues_def if_not_P [OF l] append_Nil ..
qed

lemma quiet_empty:
  "(quietIssues reg = []) =
     (critical (getHealthSummary reg) = 0 \<and> warning (getHealthSummary reg) = 0 \<and>
      getServices reg = [])"
  unfolding quietIssues_def optional_items_empty by (simp add: uniq_empty)

lemma quiet_isolated:
  "getServices reg \<noteq> [] \<Longrightarrow>
     string_of_nat (length (uniq (map name (getServices reg)))) @
       '' services appear to be isolated: '' @ join '', '' (uniq (map name (getServices reg)))
     \<in> set (quietIssues reg)"
  unfolding quietIssues_def by (rule optional_items_last) (simp add: uniq_empty)

lemma quiet_not_sentinel:
  "''No issues detected in the service mesh'' \<notin> set (quietIssues reg)"
proof
  assume "''No issues detected in the service mesh'' \<in> set (quietIssues reg)"
  then obtain n rest where "''No issues detected in the service mesh'' = string_of_nat n @ rest"
    unfolding quietIssues_def by (blast dest: optional_items_member)
  with counted_not_sentinel [of n rest] show False by metis
qed

text \<open>
  Claim C8. When no connection is listed, the isolated services of the mesh analysis are
  the names of all services, each once; they are reported in an issue when there is a
  service; and the text \<open>No issues detected in the service mesh\<close> is among the issues
  only if the overall status of the health summary is passing (it is there exactly when
  no check is critical or warning and there is no service).
\<close>

theorem mesh_without_connections:
  assumes "getServiceConnections fp reg = []"
  shows "isolatedServices (serviceConnectivityMap (getServices reg) (getServiceConnections fp reg)) =
           uniq (map name (getServices reg)) \<and>
         set (isolatedServices (serviceConnectivityMap (getServices reg) (getServiceConnections fp reg))) =
           set (map name (getServices reg)) \<and>
         (getServices reg \<noteq> [] \<longrightarrow>
            string_of_nat (length (uniq (map name (getServices reg)))) @
              '' services appear to be isolated: '' @ join '', '' (uniq (map name (getServices reg)))
            \<in> set (mesh_issues (analyzeServiceMesh fp reg))) \<and>
         (''No issues detected in the service mesh'' \<in> set (mesh_issues (analyzeServiceMesh fp reg)) \<longrightarrow>
            overallStatus (getHealthSummary reg) = Passing) \<and>
         ((''No issues detected in the service mesh'' \<in> set (mesh_issues (analyzeServiceMesh fp reg))) =
            (critical (getHealthSummary reg) = 0 \<and> warning (getHealthSummary reg) = 0 \<and>
             getServices reg = []))"
proof -
  have iso: "isolatedServices (serviceConnectivityMap (getServices reg) (getServiceConnections fp reg)) =
           uniq (map name (getServices reg))"
    unfolding assms connectivity_no_connections isolated_all ..
  have names: "set (isolatedServices
           (serviceConnectivityMap (getServices reg) (getServiceConnections fp reg))) =
           set (map name (getServices reg))"
    unfolding iso by (rule set_uniq)
  have listed: "string_of_nat (length (uniq (map name (getServices reg)))) @
              '' services appear to be isolated: '' @ join '', '' (uniq (map name (getServices reg)))
            \<in> set (mesh_issues (analyzeServiceMesh fp reg))"
    if "getServices reg \<noteq> []"
    unfolding mesh_issues_quiet [OF assms]
    by (rule sentinel_or_items(1) [OF quiet_isolated [OF that]])
  have sentinel: "(''No issues detected in the service mesh'' \<in> set (mesh_issues (analyzeServiceMesh fp reg))) =
            (critical (getHealthSummary reg) = 0 \<and> warning (getHealthSummary reg) = 0 \<and>
             getServices reg = [])"
    unfolding mesh_issues_quiet [OF assms] sentinel_or_items(2) [OF quiet_not_sentinel]
    by (rule quiet_empty)
  from sentinel summary_passing [of reg]
  have only: "''No issues detected in the service mesh'' \<in> set (mesh_issues (analyzeServiceMesh fp reg)) \<longrightarrow>
            overallStatus (getHealthSummary reg) = Passing"
    by blast
  from iso names listed only sentinel show ?thesis by blast
qed

lemma demo_fields:
  "\<exists>a b. getServices demoRegistry = [a, b] \<and>
     service_id a = ''web-1'' \<and> name a = ''web'' \<and> meta a = [] \<and>
     service_id b = ''db-1'' \<and> name b = ''db'' \<and> meta b = []"
  by (simp add: getServices_def demoRegistry_def snapshot_def demoNodes_def plainNode_def
        uniq_def setInsert_def toService_def Let_def)

lemma demo_no_connections: "getServiceConnections fp demoRegistry = []"
proof -
  from demo_fields obtain a b where
    l: "getServices demoRegistry = [a, b]"
    and a: "service_id a = ''web-1''" "name a = ''web''" "meta a = []"
    and b: "service_id b = ''db-1''" "name b = ''db''" "meta b = []"
    by blast
  have i: "connectIntentions demoRegistry = Fails"
    by (simp add: demoRegistry_def snapshot_def)
  have "inferConnections (getServices demoRegistry) = []"
    unfolding l
    by (simp add: inferConnections_def metadataEdges_def namingEdges_def upstreams_def a b
          namingMatch_def)
  then show ?thesis
    using no_intentions [of demoRegistry fp] i by simp
qed

lemma empty_services: "getServices emptyRegistry = []"
  by (simp add: getServices_def emptyRegistry_def snapshot_def uniq_def)

lemma empty_no_connections: "getServiceConnections fp emptyRegistry = []"
proof -
  have i: "connectIntentions emptyRegistry = Fails"
    by (simp add: emptyRegistry_def snapshot_def)
  show ?thesis
    using no_intentions [of emptyRegistry fp] i
    by (simp add: empty_services inferConnections_def)
qed

lemma empty_counts:
  "critical (getHealthSummary emptyRegistry) = 0" "warning (getHealthSummary emptyRegistry) = 0"
  by (simp_all add: getHealthSummary_def getAllHealthChecks_def emptyRegistry_def snapshot_def)

lemma two_isolated_text:
  "string_of_nat (length [''web'', ''db'']) @ '' services appear to be isolated: '' @
     join '', '' [''web'', ''db''] = ''2 services appear to be isolated: web, db''"
proof -
  have s: "string_of_nat 2 = ''2''" by code_simp
  have l: "length [''web'', ''db''] = 2" by simp
  have j: "join '', '' [''web'', ''db''] = ''web, db''" by simp
  show ?thesis unfolding l j s by simp
qed

theorem mesh_without_connections_witness:
  "getServiceConnections exactMath demoRegistry = [] \<and>
   isolatedServices (serviceConnectivityMap (getServices demoRegistry)
      (getServiceConnections exactMath demoRegistry)) = [''web'', ''db''] \<and>
   ''2 services appear to be isolated: web, db''
     \<in> set (mesh_issues (analyzeServiceMesh exactMath demoRegistry)) \<and>
   ''No issues detected in the service mesh''
     \<notin> set (mesh_issues (analyzeServiceMesh exactMath demoRegistry)) \<and>
   getServiceConnections exactMath emptyRegistry = [] \<and>
   ''No issues detected in the service mesh''
     \<in> set (mesh_issues (analyzeServiceMesh exactMath emptyRegistry)) \<and>
   overallStatus (getHealthSummary emptyRegistry) = Passing"
proof -
  note d = mesh_without_connections [OF demo_no_connections [of exactMath]]
  note e = mesh_without_connections [OF empty_no_connections [of exactMath]]
  have u: "uniq (map name (getServices demoRegistry)) = [''web'', ''db'']"
    unfolding demo_services by (simp add: uniq_def setInsert_def)
  have n: "getServices demoRegistry \<noteq> []"
    using demo_services by auto
  have d1: "isolatedServices (serviceConnectivityMap (getServices demoRegistry)
      (getServiceConnections exactMath demoRegistry)) = [''web'', ''db'']"
    using d unfolding u by blast
  have d2: "''2 services appear to be isolated: web, db''
     \<in> set (mesh_issues (analyzeServiceMesh exactMath demoRegistry))"
    using d n unfolding u two_isolated_text by blast
  have d3: "''No issues detected in the service mesh''
     \<notin> set (mesh_issues (analyzeServiceMesh exactMath demoRegistry))"
    using d n by blast
  have e1: "''No issues detected in the service mesh''
     \<in> set (mesh_issues (analyzeServiceMesh exactMath emptyRegistry))"
    using e empty_counts empty_services by blast
  have e2: "overallStatus (getHealthSummary emptyRegistry) = Passing"
    using e e1 by blast
  from demo_no_connections [of exactMath] d1 d2 d3 empty_no_connections [of exactMath] e1 e2
  show ?thesis by blast
qed

section \<open>Diagram identifiers\<close>

lemma isAlnum_alnumChars: "isAlnum c = (c \<in> set alnumChars)"
proof -
  have "\<forall>c. isAlnum c = (c \<in> set alnumChars)"
    by code_simp
  then show ?thesis by blast
qed

text \<open>
  Claim C9. The identifier of a name has the name's length and is the name with every
  character that is none of \<open>A\<close> to \<open>Z\<close>, \<open>a\<close> to \<open>z\<close>, \<open>0\<close> to \<open>9\<close> replaced
  by an underscore; the name \<open>order-service!\<close> gives \<open>order_service_\<close>, and that is the
  node identifier of its line in the diagram.
\<close>

theorem formatId_replaces:
  "length (formatId n) = length n \<and>
   formatId n = map (\<lambda>c. if c \<in> set alnumChars then c else CHR ''_'') n \<and>
   formatId ''order-service!'' = ''order_service_'' \<and>
   nodeLine \<lparr> includeHealth = False, includeMetrics = False \<rparr>
       (toService demoRegistry (plainNode ''o-1'' ''order-service!'' [])) =
     ''    order_service_[\"order-service!\"]'' @ newline"
proof -
  have a: "formatId n = map (\<lambda>c. if c \<in> set alnumChars then c else CHR ''_'') n"
    unfolding formatId_def isAlnum_alnumChars ..
  have b: "formatId ''order-service!'' = ''order_service_''"
    by (simp add: formatId_def isAlnum_def)
  have c: "nodeLine \<lparr> includeHealth = False, includeMetrics = False \<rparr>
       (toService demoRegistry (plainNode ''o-1'' ''order-service!'' [])) =
     ''    order_service_[\"order-service!\"]'' @ newline"
    by (simp add: nodeLine_def toService_def plainNode_def Let_def b)
  show ?thesis using a b c by (simp add: formatId_def)
qed

section \<open>The agent's own service\<close>

lemma services_origin:
  assumes "s \<in> set (getServices reg)"
  shows "\<exists>keys key nodes e. catalogServices reg = Reply keys \<and> key \<in> set keys \<and>
            key \<noteq> ''consul'' \<and> catalogNodes reg key = Reply nodes \<and> e \<in> set nodes \<and>
            s = toService reg e"
proof -
  from assms obtain keys where k: "catalogServices reg = Reply keys"
    by (cases "catalogServices reg") (auto simp: getServices_def)
  with assms obtain res where l: "serviceLoop reg [] keys = Some res" and m: "s \<in> set res"
    by (cases "serviceLoop reg [] keys") (auto simp: getServices_def)
  from serviceLoop_origin [OF l m] k show ?thesis by auto
qed

lemma consistent_names:
  assumes "catalogConsistent reg"
  shows "''consul'' \<notin> set (map name (getServices reg))"
proof
  assume "''consul'' \<in> set (map name (getServices reg))"
  then obtain s where s: "s \<in> set (getServices reg)" and n: "name s = ''consul''"
    by auto
  from services_origin [OF s] obtain key nodes e where
    o: "key \<noteq> ''consul''" "catalogNodes reg key = Reply nodes" "e \<in> set nodes"
       "s = toService reg e"
    by blast
  have "name s = ServiceName e" using o(4) by (simp add: toService_def Let_def)
  with assms o n show False by (auto simp: catalogConsistent_def)
qed

lemma details_name: "name (enrichServiceDetails service connections) = name service"
  by (simp add: enrichServiceDetails_def Let_def ConsulService.defs)

lemma details_names: "map name (getAllServices fp reg) = map name (getServices reg)"
  by (simp add: getAllServices_def Let_def details_name comp_def)

lemma inferred_endpoints:
  "c \<in> set (inferConnections services) \<Longrightarrow>
     source c \<in> set (map name services) \<and> destination c \<in> set (map name services)"
  by (auto simp: inferConnections_def metadataEdges_def namingEdges_def inferred_fields
        intro: rev_image_eqI)

lemma mapPut_keys_known:
  "map_of m k = Some w \<Longrightarrow> map fst (mapPut k v m) = map fst m"
  by (induction m) (auto split: if_splits)

lemma addOutgoing_keys: "map fst (addOutgoing conn m) = map fst m"
  by (cases "map_of m (source conn)") (simp_all add: addOutgoing_def mapPut_keys_known)

lemma fold_addOutgoing_keys: "map fst (fold addOutgoing connections m) = map fst m"
  by (induction connections arbitrary: m) (simp_all add: addOutgoing_keys)

lemma connectivity_keys:
  "map fst (serviceConnectivityMap services connections) = uniq (map name services)"
proof -
  have "fold (\<lambda>service. mapPut (name service) ([] :: string list)) services [] =
          map (\<lambda>k. (k, [])) (uniq (map name services))"
    using fold_mapPut_names [of services "[]"] by (simp add: uniq_def)
  then show ?thesis
    by (simp add: serviceConnectivityMap_def fold_addOutgoing_keys comp_def)
qed

lemma isolated_keys: "set (isolatedServices m) \<subseteq> set (map fst m)"
  by (auto simp: isolatedServices_def)

lemma unknown_name_analysis:
  "n \<notin> set (map name (getServices reg)) \<Longrightarrow>
     analyzeService fp reg n = Inl (Error (''Service '' @ n @ '' not found''))"
proof -
  assume "n \<notin> set (map name (getServices reg))"
  then have "find (\<lambda>s. name s = n) (getServices reg) = None"
    using find_name_None [of n "getServices reg"] by blast
  then have "getServiceByName fp reg n = None"
    by (simp add: getServiceByName_def Let_def)
  then show ?thesis by (simp add: analyzeService_def)
qed

lemma consul_intent_reply: "connectIntentions consulIntentRegistry = Reply [consulToWeb]"
  by (simp add: consulIntentRegistry_def snapshot_def)

text \<open>
  Claim C10, as stated, fails. An intention from \<open>consul\<close> to \<open>web\<close> is listed as a
  connection with source \<open>consul\<close> and drawn as an edge of the diagram: the connections of
  the first tier are not filtered. And a catalog that answers the node query for \<open>web\<close>
  with an entry named \<open>consul\<close> puts a record of that name into the service list.
\<close>

theorem consul_listed_downstream:
  "map (\<lambda>c. (source c, destination c, status c))
     (getServiceConnections exactMath consulIntentRegistry) = [(''consul'', ''web'', Blocked)] \<and>
   map (edgeLine \<lparr> includeHealth = True, includeMetrics = True \<rparr>)
     (getServiceConnections exactMath consulIntentRegistry) =
     [''  consul --> web:::failingConn'' @ newline] \<and>
   map name (getServices skewedRegistry) = [''consul'']"
proof -
  have b: "status (intentionConnection consulToWeb) = Blocked"
    by (simp add: intentionConnection_def consulToWeb_def)
  have r: "getServiceConnections exactMath consulIntentRegistry = [intentionConnection consulToWeb]"
    unfolding intentions_first [OF consul_intent_reply] using enhance_blocked [OF b] by simp
  have f: "formatId ''consul'' = ''consul''" "formatId ''web'' = ''web''"
    by (simp_all add: formatId_def isAlnum_def)
  have one: "map (\<lambda>c. (source c, destination c, status c))
     (getServiceConnections exactMath consulIntentRegistry) = [(''consul'', ''web'', Blocked)]"
    unfolding r by (simp add: intentionConnection_def consulToWeb_def)
  have two: "map (edgeLine \<lparr> includeHealth = True, includeMetrics = True \<rparr>)
     (getServiceConnections exactMath consulIntentRegistry) =
     [''  consul --> web:::failingConn'' @ newline]"
    unfolding r
    by (simp add: edgeLine_def intentionConnection_def consulToWeb_def f getConnectionStyle_def Let_def)
  have three: "map name (getServices skewedRegistry) = [''consul'']"
    by (simp add: getServices_def skewedRegistry_def toService_def plainNode_def Let_def)
  from one two three show ?thesis by blast
qed

text \<open>
  Claim C10, amended. For every registry, each record that \<open>getServices\<close> returns was
  built from an entry of a node query for a catalog name other than \<open>consul\<close>. Where the
  catalog answers a node query with entries of the queried name, \<open>consul\<close> names no record
  of the service list and none of the service details, is no endpoint of a connection of
  the heuristic fallback (so of no listed connection when the first tier is empty), is
  no key of the connectivity map and no isolated service of the mesh analysis, and
  \<open>analyzeService\<close> fails for it with \<open>Service consul not found\<close>. The connections of
  the first tier keep the endpoints of their intentions, whatever they name.
\<close>

theorem consul_entry_skipped:
  "(\<forall>s \<in> set (getServices reg).
      \<exists>keys key nodes e. catalogServices reg = Reply keys \<and> key \<in> set keys \<and>
        key \<noteq> ''consul'' \<and> catalogNodes reg key = Reply nodes \<and> e \<in> set nodes \<and>
        s = toService reg e) \<and>
   (catalogConsistent reg \<longrightarrow>
      ''consul'' \<notin> set (map name (getServices reg)) \<and>
      ''consul'' \<notin> set (map name (getAllServices fp reg)) \<and>
      (\<forall>c \<in> set (inferConnections (getServices reg)).
         source c \<noteq> ''consul'' \<and> destination c \<noteq> ''consul'') \<and>
      (intentionConnections reg = [] \<longrightarrow>
         (\<forall>c \<in> set (getServiceConnections fp reg).
            source c \<noteq> ''consul'' \<and> destination c \<noteq> ''consul'')) \<and>
      analyzeService fp reg ''consul'' = Inl (Error ''Service consul not found'') \<and>
      ''consul'' \<notin> set (map fst (serviceConnectivityMap (getServices reg)
                                   (getServiceConnections fp reg))) \<and>
      ''consul'' \<notin> set (isolatedServices (serviceConnectivityMap (getServices reg)
                                   (getServiceConnections fp reg)))) \<and>
   (connectIntentions reg = Reply (i # rest) \<longrightarrow>
      map (\<lambda>c. (source c, destination c)) (getServiceConnections fp reg) =
        map (\<lambda>j. (SourceName j, DestinationName j)) (i # rest))"
proof -
  have origin: "\<forall>s \<in> set (getServices reg).
      \<exists>keys key nodes e. catalogServices reg = Reply keys \<and> key \<in> set keys \<and>
        key \<noteq> ''consul'' \<and> catalogNodes reg key = Reply nodes \<and> e \<in> set nodes \<and>
        s = toService reg e"
    using services_origin by blast
  have down: "''consul'' \<notin> set (map name (getServices reg)) \<and>
      ''consul'' \<notin> set (map name (getAllServices fp reg)) \<and>
      (\<forall>c \<in> set (inferConnections (getServices reg)).
         source c \<noteq> ''consul'' \<and> destination c \<noteq> ''consul'') \<and>
      (intentionConnections reg = [] \<longrightarrow>
         (\<forall>c \<in> set (getServiceConnections fp reg).
            source c \<noteq> ''consul'' \<and> destination c \<noteq> ''consul'')) \<and>
      analyzeService fp reg ''consul'' = Inl (Error ''Service consul not found'') \<and>
      ''consul'' \<notin> set (map fst (serviceConnectivityMap (getServices reg)
                                   (getServiceConnections fp reg))) \<and>
      ''consul'' \<notin> set (isolatedServices (serviceConnectivityMap (getServices reg)
                                   (getServiceConnections fp reg)))"
    if cons: "catalogConsistent reg"
  proof -
    note n = consistent_names [OF cons]
    have d: "''consul'' \<notin> set (map name (getAllServices fp reg))"
      unfolding details_names by (rule n)
    have e: "\<forall>c \<in> set (inferConnections (getServices reg)).
               source c \<noteq> ''consul'' \<and> destination c \<noteq> ''consul''"
      using inferred_endpoints [of _ "getServices reg"] n by metis
    have g: "\<forall>c \<in> set (getServiceConnections fp reg).
               source c \<noteq> ''consul'' \<and> destination c \<noteq> ''consul''"
      if "intentionConnections reg = []"
      unfolding empty_tier [OF that] using e by (auto simp: enhance_keeps)
    have a: "analyzeService fp reg ''consul'' = Inl (Error ''Service consul not found'')"
      using unknown_name_analysis [OF n, of fp] by simp
    have k: "''consul'' \<notin> set (map fst (serviceConnectivityMap (getServices reg)
                                   (getServiceConnections fp reg)))"
      unfolding connectivity_keys set_uniq by (rule n)
    have i: "''consul'' \<notin> set (isolatedServices (serviceConnectivityMap (getServices reg)
                                   (getServiceConnections fp reg)))"
      using k isolated_keys by blast
    from n d e g a k i show ?thesis by blast
  qed
  have listed: "map (\<lambda>c. (source c, destination c)) (getServiceConnections fp reg) =
        map (\<lambda>j. (SourceName j, DestinationName j)) (i # rest)"
    if "connectIntentions reg = Reply (i # rest)"
    unfolding intentions_first [OF that]
    by (simp add: enhance_keeps intentionConnection_def del: list.map)
  from origin down listed show ?thesis by blast
qed

theorem consul_entry_skipped_witness:
  "getServices demoRegistry \<noteq> [] \<and>
   catalogServices demoRegistry = Reply [''consul'', ''web'', ''db''] \<and>
   catalogConsistent demoRegistry \<and>
   intentionConnections demoRegistry = [] \<and>
   map name (getServices demoRegistry) = [''web'', ''db''] \<and>
   ''consul'' \<notin> set (map name (getAllServices exactMath demoRegistry)) \<and>
   analyzeService exactMath demoRegistry ''consul'' = Inl (Error ''Service consul not found'') \<and>
   connectIntentions consulIntentRegistry = Reply [consulToWeb] \<and>
   map (\<lambda>c. (source c, destination c)) (getServiceConnections exactMath consulIntentRegistry) =
     [(''consul'', ''web'')]"
proof -
  note d = consul_entry_skipped [of demoRegistry exactMath consulToWeb "[]"]
  note c = consul_entry_skipped [of consulIntentRegistry exactMath consulToWeb "[]"]
  have s: "getServices demoRegistry \<noteq> []" using demo_services by auto
  have k: "catalogServices demoRegistry = Reply [''consul'', ''web'', ''db'']"
    by (simp add: demoRegistry_def snapshot_def demoNodes_def plainNode_def uniq_def setInsert_def)
  have b: "catalogConsistent demoRegistry"
    unfolding demoRegistry_def by (rule snapshot_consistent)
  have t: "intentionConnections demoRegistry = []"
    by (simp add: intentionConnections_def demoRegistry_def snapshot_def)
  have a: "''consul'' \<notin> set (map name (getAllServices exactMath demoRegistry))"
    using d b by blast
  have n: "analyzeService exactMath demoRegistry ''consul'' = Inl (Error ''Service consul not found'')"
    using d b by blast
  have l: "map (\<lambda>c. (source c, destination c)) (getServiceConnections exactMath consulIntentRegistry) =
     [(''consul'', ''web'')]"
    using c consul_intent_reply by (simp add: consulToWeb_def)
  from s k b t demo_services a n consul_intent_reply l show ?thesis by blast
qed

end
